theory Spec2Isabelle
  imports
    Complex_Main
    "HOL-Library.Char_ord"
    "HOL-Library.List_Lexorder"
    "HOL-Library.Product_Lexorder"
    "HOL-Library.Multiset"
begin

section \<open>Culers' Corner: the request handlers of server.js over an explicit database\<close>

text \<open>
  The server keeps all of its state in five SQLite tables and answers each HTTP request
  with one JSON value. The model threads the database through every handler: a handler
  is a function from the database (and the request) to the new database and the response.

  Scope of the model.
  \<^item> A JavaScript number is an IEEE double. The model has the doubles of integer value,
    the two infinities and \<open>NaN\<close>; fractional numbers are not represented. A sum is rounded
    as the double addition rounds it (to 53 bits, ties to even, overflowing to infinity).
  \<^item> The fields \<open>player_id\<close>, \<open>points_allocated\<close>, \<open>set\<close> and \<open>delta\<close>, which the code
    tests for truthiness or type, hold any JSON primitive; \<open>JNum n\<close> is the number the
    JSON parser hands over, a double of integer value \<open>n\<close>. The text fields (\<open>name\<close>,
    \<open>email\<close>, \<open>club\<close>, ...) hold a string or are absent.
  \<^item> Two conversions of strings, and the REAL arithmetic of the leaderboard query (the
    quotient and SQLite's SUM), belong to the platform and not to this repository; they
    are parameters of the model (record \<open>builtins\<close>). A score is a \<open>real\<close>: the number the
    double denotes; an infinite score is not represented.
  \<^item> better-sqlite3 is built with foreign keys enforced.
\<close>

subsection \<open>JavaScript values\<close>

datatype jsval = JUndefined | JNull | JBool bool | JNum int | JStr string

datatype jsnum = Fin int | PosInf | NegInf | NaN

text \<open>\<open>!v\<close> is \<open>\<not> truthy v\<close>.\<close>

fun truthy :: "jsval \<Rightarrow> bool" where
  "truthy JUndefined = False"
| "truthy JNull = False"
| "truthy (JBool b) = b"
| "truthy (JNum n) = (n \<noteq> 0)"
| "truthy (JStr s) = (s \<noteq> [])"

text \<open>\<open>a || b\<close>\<close>

definition js_or :: "jsval \<Rightarrow> jsval \<Rightarrow> jsval" where
  "js_or a b = (if truthy a then a else b)"

text \<open>\<open>typeof v === 'number'\<close>\<close>

fun typeof_number :: "jsval \<Rightarrow> bool" where
  "typeof_number (JNum n) = True"
| "typeof_number v = False"

text \<open>The integer a value of type number holds.\<close>

fun number_value :: "jsval \<Rightarrow> int" where
  "number_value (JNum n) = n"
| "number_value v = 0"

text \<open>A text field of a request body: absent (or null), or a string. \<open>!s\<close> holds for
  the absent field and for the empty string.\<close>

fun truthy_text :: "string option \<Rightarrow> bool" where
  "truthy_text None = False"
| "truthy_text (Some s) = (s \<noteq> [])"

subsection \<open>The tables\<close>

text \<open>A value held in a column: NULL, a number of integer value, or text.\<close>

datatype colval = CNull | CInt int | CText string

text \<open>The value of \<open>players.total_points\<close>, which is written from a JavaScript number or
  null only: NULL, a finite number, or an infinite REAL.\<close>

datatype sqlnum = SqlNull | SqlInt int | SqlPosInf | SqlNegInf

text \<open>
  What belongs to the platform:
  \<^item> \<open>StringToNumber\<close>: what JavaScript's \<open>Number\<close> makes of a string;
  \<^item> \<open>text_integer\<close>: the integer that a column of INTEGER affinity stores for a TEXT
    value, \<open>None\<close> when SQLite does not store an integer;
  \<^item> \<open>score_term\<close>: the REAL that SQLite computes for
    \<open>points_allocated * total_points / 100.0\<close> from two values that are not NULL, \<open>None\<close>
    when the result is NULL;
  \<^item> \<open>real_sum\<close>: what SQLite's \<open>SUM\<close> makes of the REAL values of a group that has some.
\<close>

record builtins =
  StringToNumber :: "string \<Rightarrow> jsnum"
  text_integer :: "string \<Rightarrow> int option"
  score_term :: "colval \<Rightarrow> sqlnum \<Rightarrow> real option"
  real_sum :: "real list \<Rightarrow> real"

subsection \<open>Numbers\<close>

text \<open>\<open>Number(v)\<close>; the conversion of a string is a parameter.\<close>

fun Number :: "builtins \<Rightarrow> jsval \<Rightarrow> jsnum" where
  "Number B JUndefined = NaN"
| "Number B JNull = Fin 0"
| "Number B (JBool b) = Fin (if b then 1 else 0)"
| "Number B (JNum n) = Fin n"
| "Number B (JStr s) = StringToNumber B s"

text \<open>The number of binary digits of a natural number.\<close>

fun binary_digits :: "nat \<Rightarrow> nat" where
  "binary_digits n = (if n = 0 then 0 else Suc (binary_digits (n div 2)))"

text \<open>A natural number rounded to 53 binary digits, a tie going to the even neighbour.\<close>

definition round53 :: "nat \<Rightarrow> nat" where
  "round53 n =
     (let k = binary_digits n
      in if k \<le> 53 then n
         else
           (let s = k - 53; q = n div 2 ^ s; r = n mod 2 ^ s; h = 2 ^ (s - 1);
                q' = (if h < r \<or> (r = h \<and> odd q) then q + 1 else q)
            in q' * 2 ^ s))"

text \<open>The double nearest to an integer. Up to \<open>2^53\<close> in size every integer is a double;
  from \<open>2^1024\<close> on the rounded value is infinite.\<close>

definition to_double :: "int \<Rightarrow> jsnum" where
  "to_double n =
     (if \<bar>n\<bar> \<le> 2 ^ 53 then Fin n
      else
        (let m = int (round53 (nat \<bar>n\<bar>))
         in if 2 ^ 1024 \<le> m then (if n < 0 then NegInf else PosInf)
            else Fin (if n < 0 then - m else m)))"

text \<open>\<open>x + y\<close> on numbers: the exact sum of two doubles, rounded.\<close>

fun js_add :: "jsnum \<Rightarrow> jsnum \<Rightarrow> jsnum" where
  "js_add (Fin a) (Fin b) = to_double (a + b)"
| "js_add NaN y = NaN"
| "js_add x NaN = NaN"
| "js_add PosInf NegInf = NaN"
| "js_add NegInf PosInf = NaN"
| "js_add PosInf y = PosInf"
| "js_add x PosInf = PosInf"
| "js_add NegInf y = NegInf"
| "js_add x NegInf = NegInf"

subsection \<open>Rows\<close>

record user_row =
  u_id :: int
  u_name :: string
  u_email :: string

record player_row =
  p_id :: int
  p_name :: string
  p_club :: string
  p_photo_url :: string
  p_total_points :: sqlnum

text \<open>The \<open>id\<close> columns of \<open>allocations\<close> and \<open>potm_votes\<close> are left out: they are never
  NULL, and no statement reads them but \<open>COUNT(v.id)\<close>, which counts the rows.\<close>

record alloc_row =
  a_user_id :: int
  a_player_id :: int
  a_points_allocated :: colval

record match_row =
  m_id :: int
  m_date :: string
  m_opponent :: string
  m_home_away :: "string option"
  m_status :: "string option"

record vote_row =
  v_match_id :: int
  v_player_id :: int
  v_user_email :: string
  v_created_at :: string

text \<open>Each list holds the rows of a table in insertion order; \<open>_seq\<close> is the largest id
  AUTOINCREMENT has handed out for the table.\<close>

record db =
  users :: "user_row list"
  users_seq :: int
  players :: "player_row list"
  players_seq :: int
  allocations :: "alloc_row list"
  matches :: "match_row list"
  matches_seq :: int
  potm_votes :: "vote_row list"

text \<open>What is thrown: by better-sqlite3 for a value it cannot bind, by SQLite for a
  constraint, by the code itself, and by JavaScript for a property read of null.\<close>

datatype js_error =
    BindTypeError
  | ConstraintFailed
  | Thrown string
  | NullAccess

subsection \<open>Requests and responses\<close>

record alloc_entry =
  player_id :: jsval
  points_allocated :: jsval

text \<open>An element of \<open>allocations\<close> is null (\<open>None\<close>) or has the two fields; a field that is
  not there is \<open>JUndefined\<close>, as both are in an element that is a number or a string.\<close>

record allocate_body =
  ab_name :: "string option"
  ab_email :: "string option"
  ab_allocations :: "alloc_entry option list option"

record points_body =
  delta :: jsval
  set_to :: jsval

record vote_body =
  vb_name :: "string option"
  vb_email :: "string option"
  vb_player_id :: jsval

record player_body =
  pb_name :: "string option"
  pb_club :: "string option"
  pb_photo_url :: "string option"

text \<open>A text field for which the code tells the absent field from null.\<close>

datatype json_text = Absent | JsonNull | JsonText string

record match_body =
  mb_date :: "string option"
  mb_opponent :: "string option"
  mb_home_away :: json_text
  mb_status :: json_text

record leaderboard_row =
  lb_id :: int
  lb_name :: string
  lb_email :: string
  portfolio_points :: real

record result_row =
  r_player_id :: int
  r_player_name :: string
  votes :: nat

text \<open>\<open>ErrorResp c msg\<close> is \<open>res.status(c).json({ error: msg })\<close>; \<open>Unhandled e\<close> is an
  exception that leaves the handler (Express answers 500).\<close>

datatype response =
    ErrorResp nat string
  | OkUser user_row
  | OkId int
  | OkPoints int sqlnum
  | OkOnly
  | PlayerRows "player_row list"
  | MatchRows "match_row list"
  | LeaderboardRows "leaderboard_row list"
  | ResultRows "result_row list"
  | Unhandled js_error

subsection \<open>Prepared statements\<close>

text \<open>\<open>SELECT * FROM users WHERE email = ?\<close>, first row\<close>

definition getUserByEmail :: "db \<Rightarrow> string \<Rightarrow> user_row option" where
  "getUserByEmail d e = find (\<lambda>u. u_email u = e) (users d)"

text \<open>\<open>INSERT INTO users (name, email) VALUES (?, ?)\<close>; the result is the new database
  and \<open>lastInsertRowid\<close>.\<close>

definition createUser :: "db \<Rightarrow> string \<Rightarrow> string \<Rightarrow> db \<times> int" where
  "createUser d n e =
     (let i = users_seq d + 1
      in (d\<lparr>users := users d @ [\<lparr>u_id = i, u_name = n, u_email = e\<rparr>], users_seq := i\<rparr>, i))"

text \<open>What better-sqlite3 binds for a parameter: numbers, strings and null bind, and a
  boolean raises a TypeError. The absent value is taken as null; the columns it could
  reach here are NOT NULL, so the statement fails one way or the other.\<close>

fun bind :: "jsval \<Rightarrow> js_error + colval" where
  "bind JUndefined = Inr CNull"
| "bind JNull = Inr CNull"
| "bind (JBool b) = Inl BindTypeError"
| "bind (JNum n) = Inr (CInt n)"
| "bind (JStr s) = Inr (CText s)"

text \<open>A column declared INTEGER converts the text it is given when the text is an
  integer.\<close>

fun integer_affinity :: "builtins \<Rightarrow> colval \<Rightarrow> colval" where
  "integer_affinity B (CText s) = (case text_integer B s of Some n \<Rightarrow> CInt n | None \<Rightarrow> CText s)"
| "integer_affinity B v = v"

text \<open>\<open>CHECK(points_allocated >= 0)\<close>: in SQLite's ordering every text is above every
  number.\<close>

fun check_points :: "colval \<Rightarrow> bool" where
  "check_points (CInt n) = (0 \<le> n)"
| "check_points (CText s) = True"
| "check_points CNull = True"

text \<open>\<open>FOREIGN KEY(player_id) REFERENCES players(id)\<close> and the like: the value equals the
  key of a parent row. A text equals no INTEGER PRIMARY KEY.\<close>

fun references :: "int list \<Rightarrow> colval \<Rightarrow> bool" where
  "references keys (CInt n) = (n \<in> set keys)"
| "references keys v = False"

fun the_int :: "colval \<Rightarrow> int" where
  "the_int (CInt n) = n"
| "the_int v = 0"

text \<open>
  \<open>INSERT INTO allocations (user_id, player_id, points_allocated) VALUES (?, ?, ?)
    ON CONFLICT(user_id, player_id) DO UPDATE SET points_allocated = excluded.points_allocated\<close>
  on rows already converted and checked.
\<close>

fun upsert_alloc_row :: "int \<Rightarrow> int \<Rightarrow> colval \<Rightarrow> alloc_row list \<Rightarrow> alloc_row list" where
  "upsert_alloc_row uid pid pts [] =
     [\<lparr>a_user_id = uid, a_player_id = pid, a_points_allocated = pts\<rparr>]"
| "upsert_alloc_row uid pid pts (r # rs) =
     (if a_user_id r = uid \<and> a_player_id r = pid
      then r\<lparr>a_points_allocated := pts\<rparr> # rs
      else r # upsert_alloc_row uid pid pts rs)"

definition upsertAllocation :: "builtins \<Rightarrow> db \<Rightarrow> int \<Rightarrow> jsval \<Rightarrow> jsval \<Rightarrow> js_error + db" where
  "upsertAllocation B d uid pid_v pts_v =
     (case bind pid_v of
        Inl e \<Rightarrow> Inl e
      | Inr pc \<Rightarrow>
         (case bind pts_v of
            Inl e \<Rightarrow> Inl e
          | Inr qc \<Rightarrow>
             (let pid = integer_affinity B pc; pts = integer_affinity B qc
              in if pid = CNull \<or> pts = CNull then Inl ConstraintFailed
                 else if \<not> check_points pts then Inl ConstraintFailed
                 else if \<not> references (map u_id (users d)) (CInt uid) then Inl ConstraintFailed
                 else if \<not> references (map p_id (players d)) pid then Inl ConstraintFailed
                 else Inr (d\<lparr>allocations :=
                             upsert_alloc_row uid (the_int pid) pts (allocations d)\<rparr>))))"

text \<open>
  \<open>INSERT INTO potm_votes (match_id, player_id, user_email) VALUES (?, ?, ?)
    ON CONFLICT(match_id, user_email)
    DO UPDATE SET player_id = excluded.player_id, created_at = datetime('now')\<close>;
  \<open>now\<close> is the reading of the clock.
\<close>

fun upsert_vote_row :: "string \<Rightarrow> int \<Rightarrow> int \<Rightarrow> string \<Rightarrow> vote_row list \<Rightarrow> vote_row list" where
  "upsert_vote_row now mid pid e [] =
     [\<lparr>v_match_id = mid, v_player_id = pid, v_user_email = e, v_created_at = now\<rparr>]"
| "upsert_vote_row now mid pid e (r # rs) =
     (if v_match_id r = mid \<and> v_user_email r = e
      then r\<lparr>v_player_id := pid, v_created_at := now\<rparr> # rs
      else r # upsert_vote_row now mid pid e rs)"

definition upsertVote :: "builtins \<Rightarrow> string \<Rightarrow> db \<Rightarrow> int \<Rightarrow> jsval \<Rightarrow> string \<Rightarrow> js_error + db" where
  "upsertVote B now d mid pid_v e =
     (case bind pid_v of
        Inl err \<Rightarrow> Inl err
      | Inr pc \<Rightarrow>
         (let pid = integer_affinity B pc
          in if pid = CNull then Inl ConstraintFailed
             else if \<not> references (map m_id (matches d)) (CInt mid) then Inl ConstraintFailed
             else if \<not> references (map p_id (players d)) pid then Inl ConstraintFailed
             else Inr (d\<lparr>potm_votes :=
                         upsert_vote_row now mid (the_int pid) e (potm_votes d)\<rparr>)))"

subsection \<open>Players\<close>

text \<open>\<open>GET /api/players\<close>: \<open>SELECT * FROM players ORDER BY id\<close>\<close>

definition listPlayers :: "db \<Rightarrow> db \<times> response" where
  "listPlayers d = (d, PlayerRows (sort_key p_id (players d)))"

text \<open>\<open>x || ''\<close> on a text field\<close>

fun text_or_empty :: "string option \<Rightarrow> string" where
  "text_or_empty None = []"
| "text_or_empty (Some s) = s"

text \<open>\<open>POST /api/players\<close>\<close>

definition createPlayer :: "db \<Rightarrow> player_body \<Rightarrow> db \<times> response" where
  "createPlayer d body =
     (if \<not> truthy_text (pb_name body) then (d, ErrorResp 400 ''name required'')
      else
        (let i = players_seq d + 1
         in (d\<lparr>players := players d @
                  [\<lparr>p_id = i, p_name = text_or_empty (pb_name body),
                    p_club = text_or_empty (pb_club body),
                    p_photo_url = text_or_empty (pb_photo_url body),
                    p_total_points = SqlInt 0\<rparr>],
               players_seq := i\<rparr>,
             OkId i)))"

text \<open>\<open>SELECT * FROM players WHERE id = ?\<close>, first row. The parameter is
  \<open>Number(req.params.id)\<close>; \<open>NaN\<close> equals no id.\<close>

definition getPlayer :: "db \<Rightarrow> jsnum \<Rightarrow> player_row option" where
  "getPlayer d ident = find (\<lambda>p. Fin (p_id p) = ident) (players d)"

text \<open>\<open>UPDATE players SET total_points = ? WHERE id = ?\<close>\<close>

definition updatePoints :: "db \<Rightarrow> sqlnum \<Rightarrow> jsnum \<Rightarrow> db" where
  "updatePoints d newTotal ident =
     d\<lparr>players :=
         map (\<lambda>p. if Fin (p_id p) = ident then p\<lparr>p_total_points := newTotal\<rparr> else p)
           (players d)\<rparr>"

text \<open>\<open>row.total_points\<close> as a JavaScript value: null (\<open>None\<close>) or a number.\<close>

fun read_total :: "sqlnum \<Rightarrow> jsnum option" where
  "read_total SqlNull = None"
| "read_total (SqlInt n) = Some (Fin n)"
| "read_total SqlPosInf = Some PosInf"
| "read_total SqlNegInf = Some NegInf"

text \<open>The left operand of \<open>newTotal + delta\<close> as a number: null counts 0.\<close>

fun total_number :: "jsnum option \<Rightarrow> jsnum" where
  "total_number None = Fin 0"
| "total_number (Some x) = x"

text \<open>\<open>newTotal\<close> as it is bound to \<open>total_points = ?\<close>: SQLite holds NULL for \<open>NaN\<close>.\<close>

fun bind_total :: "jsnum option \<Rightarrow> sqlnum" where
  "bind_total None = SqlNull"
| "bind_total (Some NaN) = SqlNull"
| "bind_total (Some (Fin n)) = SqlInt n"
| "bind_total (Some PosInf) = SqlPosInf"
| "bind_total (Some NegInf) = SqlNegInf"

text \<open>\<open>POST /api/players/:id/points\<close>. The answer carries \<open>newTotal\<close> as it is bound
  (JSON prints null for NULL, for \<open>NaN\<close> and for the infinities).\<close>

definition adjustPoints :: "db \<Rightarrow> jsnum \<Rightarrow> points_body \<Rightarrow> db \<times> response" where
  "adjustPoints d ident body =
     (case getPlayer d ident of
        None \<Rightarrow> (d, ErrorResp 404 ''Player not found'')
      | Some row \<Rightarrow>
         (let newTotal0 = read_total (p_total_points row);
              newTotal1 = (if typeof_number (set_to body)
                           then Some (Fin (number_value (set_to body)))
                           else newTotal0);
              newTotal2 = (if typeof_number (delta body)
                           then Some (js_add (total_number newTotal1)
                                        (Fin (number_value (delta body))))
                           else newTotal1)
          in (updatePoints d (bind_total newTotal2) ident,
              OkPoints (p_id row) (bind_total newTotal2))))"

subsection \<open>Allocations\<close>

text \<open>\<open>allocations.reduce((s, a) => s + Number(a.points_allocated || 0), 0)\<close>: the
  elements are taken from left to right, and reading the field of a null element throws.\<close>

fun reduce_total :: "builtins \<Rightarrow> jsnum \<Rightarrow> alloc_entry option list \<Rightarrow> js_error + jsnum" where
  "reduce_total B s [] = Inr s"
| "reduce_total B s (None # as) = Inl NullAccess"
| "reduce_total B s (Some a # as) =
     reduce_total B (js_add s (Number B (js_or (points_allocated a) (JNum 0)))) as"

definition allocated_total :: "builtins \<Rightarrow> alloc_entry option list \<Rightarrow> js_error + jsnum" where
  "allocated_total B allocs = reduce_total B (Fin 0) allocs"

text \<open>The lookup-or-create of the user, written out twice in server.js (in the
  allocation transaction and in the vote handler).\<close>

definition resolve_user :: "db \<Rightarrow> string \<Rightarrow> string \<Rightarrow> db \<times> user_row" where
  "resolve_user d n e =
     (case getUserByEmail d e of
        Some u \<Rightarrow> (d, u)
      | None \<Rightarrow>
         (let (d', i) = createUser d n e
          in (d', \<lparr>u_id = i, u_name = n, u_email = e\<rparr>)))"

text \<open>The loop of the transaction: the first entry without a \<open>player_id\<close> throws, and so
  does the first statement that fails.\<close>

fun upsert_all :: "builtins \<Rightarrow> db \<Rightarrow> int \<Rightarrow> alloc_entry option list \<Rightarrow> js_error + db" where
  "upsert_all B d uid [] = Inr d"
| "upsert_all B d uid (None # as) = Inl NullAccess"
| "upsert_all B d uid (Some a # as) =
     (if \<not> truthy (player_id a) then Inl (Thrown ''player_id missing'')
      else
        (case upsertAllocation B d uid (player_id a) (points_allocated a) of
           Inl e \<Rightarrow> Inl e
         | Inr d' \<Rightarrow> upsert_all B d' uid as))"

text \<open>The body of \<open>db.transaction\<close>: the new database and the user, or the exception.\<close>

definition tx :: "builtins \<Rightarrow> db \<Rightarrow> string \<Rightarrow> string \<Rightarrow> alloc_entry option list
    \<Rightarrow> js_error + (db \<times> user_row)" where
  "tx B d n e allocs =
     (let (d1, user) = resolve_user d n e
      in (case upsert_all B d1 (u_id user) allocs of
            Inl err \<Rightarrow> Inl err
          | Inr d2 \<Rightarrow> Inr (d2, user)))"

text \<open>\<open>POST /api/allocate\<close>. The total is computed outside the \<open>try\<close>: what it throws
  leaves the handler. A transaction that throws is rolled back: the database is the one
  before the request.\<close>

definition allocate :: "builtins \<Rightarrow> db \<Rightarrow> allocate_body \<Rightarrow> db \<times> response" where
  "allocate B d body =
     (if \<not> truthy_text (ab_name body) \<or> \<not> truthy_text (ab_email body)
         \<or> ab_allocations body = None
      then (d, ErrorResp 400 ''name, email, allocations[] required'')
      else
        (case allocated_total B (the (ab_allocations body)) of
           Inl err \<Rightarrow> (d, Unhandled err)
         | Inr t \<Rightarrow>
            if t \<noteq> Fin 100
            then (d, ErrorResp 400 ''Total allocated points must equal 100'')
            else
              (case tx B d (the (ab_name body)) (the (ab_email body))
                      (the (ab_allocations body)) of
                 Inl err \<Rightarrow> (d, ErrorResp 500 ''Allocation failed'')
               | Inr (d', user) \<Rightarrow> (d', OkUser user))))"

subsection \<open>Leaderboard\<close>

text \<open>\<open>a.points_allocated * p.total_points / 100.0\<close>: NULL when one of the two is NULL.\<close>

definition score_of :: "builtins \<Rightarrow> alloc_row \<Rightarrow> player_row \<Rightarrow> real option" where
  "score_of B a p =
     (if a_points_allocated a = CNull \<or> p_total_points p = SqlNull then None
      else score_term B (a_points_allocated a) (p_total_points p))"

text \<open>The values of the group of user \<open>uid\<close> that are not NULL: one for each allocation row
  of the user joined with each player row of that id. An allocation that joins no player
  gives the NULL the SUM skips.\<close>

definition portfolio_terms :: "builtins \<Rightarrow> db \<Rightarrow> int \<Rightarrow> real list" where
  "portfolio_terms B d uid =
     concat (map (\<lambda>a.
        concat (map (\<lambda>p. (case score_of B a p of None \<Rightarrow> [] | Some x \<Rightarrow> [x]))
          (filter (\<lambda>p. p_id p = a_player_id a) (players d))))
       (filter (\<lambda>a. a_user_id a = uid) (allocations d)))"

text \<open>\<open>COALESCE(SUM(...), 0)\<close>: the sum of no value is NULL, which COALESCE turns to 0.\<close>

definition portfolio :: "builtins \<Rightarrow> db \<Rightarrow> int \<Rightarrow> real" where
  "portfolio B d uid =
     (let xs = portfolio_terms B d uid in if xs = [] then 0 else real_sum B xs)"

definition leaderboard_group :: "builtins \<Rightarrow> db \<Rightarrow> user_row \<Rightarrow> leaderboard_row" where
  "leaderboard_group B d u =
     \<lparr>lb_id = u_id u, lb_name = u_name u, lb_email = u_email u,
      portfolio_points = portfolio B d (u_id u)\<rparr>"

text \<open>\<open>GET /api/leaderboard\<close>: one group for each user (\<open>id\<close> is the primary key),
  \<open>ORDER BY portfolio_points DESC, u.id ASC LIMIT 100\<close>.\<close>

definition leaderboard :: "builtins \<Rightarrow> db \<Rightarrow> leaderboard_row list" where
  "leaderboard B d =
     take 100 (sort_key (\<lambda>r. (- portfolio_points r, lb_id r))
                 (map (leaderboard_group B d) (users d)))"

subsection \<open>Matches and the player-of-the-match poll\<close>

text \<open>\<open>GET /api/matches\<close>: \<open>ORDER BY date DESC, id DESC\<close>\<close>

definition listMatches :: "db \<Rightarrow> db \<times> response" where
  "listMatches d = (d, MatchRows (rev (sort_key (\<lambda>m. (m_date m, m_id m)) (matches d))))"

text \<open>A destructuring default: \<open>{ x = dflt }\<close> takes \<open>dflt\<close> for the absent field only; null
  stays null, and is bound as NULL.\<close>

fun default_to :: "string \<Rightarrow> json_text \<Rightarrow> string option" where
  "default_to dflt Absent = Some dflt"
| "default_to dflt JsonNull = None"
| "default_to dflt (JsonText s) = Some s"

text \<open>\<open>POST /api/matches\<close>; the insert fails on
  \<open>CHECK(home_away in ('HOME','AWAY'))\<close>, which NULL passes, outside any try.\<close>

definition createMatch :: "db \<Rightarrow> match_body \<Rightarrow> db \<times> response" where
  "createMatch d body =
     (let home_away = default_to ''HOME'' (mb_home_away body);
          status = default_to ''final'' (mb_status body)
      in if \<not> truthy_text (mb_date body) \<or> \<not> truthy_text (mb_opponent body)
         then (d, ErrorResp 400 ''date and opponent required'')
         else if home_away \<noteq> None \<and> home_away \<noteq> Some ''HOME'' \<and> home_away \<noteq> Some ''AWAY''
         then (d, Unhandled ConstraintFailed)
         else
           (let i = matches_seq d + 1
            in (d\<lparr>matches := matches d @
                     [\<lparr>m_id = i, m_date = text_or_empty (mb_date body),
                       m_opponent = text_or_empty (mb_opponent body),
                       m_home_away = home_away, m_status = status\<rparr>],
                  matches_seq := i\<rparr>,
                OkId i)))"

text \<open>\<open>SELECT * FROM matches WHERE id = ?\<close>, first row\<close>

definition getMatch :: "db \<Rightarrow> jsnum \<Rightarrow> match_row option" where
  "getMatch d mid = find (\<lambda>m. Fin (m_id m) = mid) (matches d)"

text \<open>\<open>POST /api/potm/:match_id/vote\<close>. The statements run one by one, outside any
  transaction or try: when the vote fails the user row just created stays.\<close>

definition vote :: "builtins \<Rightarrow> string \<Rightarrow> db \<Rightarrow> jsnum \<Rightarrow> vote_body \<Rightarrow> db \<times> response" where
  "vote B now d mid body =
     (if \<not> truthy_text (vb_name body) \<or> \<not> truthy_text (vb_email body)
         \<or> \<not> truthy (vb_player_id body)
      then (d, ErrorResp 400 ''name, email, player_id required'')
      else
        (case getMatch d mid of
           None \<Rightarrow> (d, ErrorResp 404 ''Match not found'')
         | Some m \<Rightarrow>
            (let (d1, user) = resolve_user d (the (vb_name body)) (the (vb_email body))
             in (case upsertVote B now d1 (m_id m) (vb_player_id body) (the (vb_email body)) of
                   Inl err \<Rightarrow> (d1, Unhandled err)
                 | Inr d2 \<Rightarrow> (d2, OkOnly)))))"

text \<open>\<open>COUNT(v.id)\<close> over the rows joined to player \<open>pid\<close>:
  \<open>v.player_id = p.id AND v.match_id = ?\<close>\<close>

definition count_votes :: "db \<Rightarrow> jsnum \<Rightarrow> int \<Rightarrow> nat" where
  "count_votes d mid pid =
     length (filter (\<lambda>v. v_player_id v = pid \<and> Fin (v_match_id v) = mid) (potm_votes d))"

definition result_group :: "db \<Rightarrow> jsnum \<Rightarrow> player_row \<Rightarrow> result_row" where
  "result_group d mid p =
     \<lparr>r_player_id = p_id p, r_player_name = p_name p, votes = count_votes d mid (p_id p)\<rparr>"

text \<open>\<open>GET /api/potm/:match_id/results\<close>: one group for each player (\<open>id\<close> is the primary
  key), \<open>ORDER BY votes DESC, p.name ASC\<close>. Names compare byte by byte.\<close>

definition results :: "db \<Rightarrow> jsnum \<Rightarrow> result_row list" where
  "results d mid =
     sort_key (\<lambda>r. (- int (votes r), r_player_name r)) (map (result_group d mid) (players d))"

subsection \<open>Start-up and the server as a whole\<close>

definition empty_db :: db where
  "empty_db =
     \<lparr>users = [], users_seq = 0, players = [], players_seq = 0, allocations = [],
      matches = [], matches_seq = 0, potm_votes = []\<rparr>"

text \<open>\<open>seed.run(name, club, photo_url)\<close>\<close>

definition seed_player :: "string \<Rightarrow> db \<Rightarrow> db" where
  "seed_player n d =
     (let i = players_seq d + 1
      in d\<lparr>players := players d @
              [\<lparr>p_id = i, p_name = n, p_club = ''FC Barcelona'', p_photo_url = [],
                p_total_points = SqlInt 0\<rparr>],
           players_seq := i\<rparr>)"

text \<open>The two seeding steps, each run when its table is empty; \<open>today\<close> is
  \<open>new Date().toISOString().slice(0,10)\<close>.\<close>

definition startup :: "string \<Rightarrow> db \<Rightarrow> db" where
  "startup today d =
     (let d1 = (if length (players d) = 0
                then seed_player ''Gavi'' (seed_player ''Pedri'' (seed_player ''Lamine Yamal'' d))
                else d)
      in if length (matches d1) = 0
         then (let i = matches_seq d1 + 1
               in d1\<lparr>matches := matches d1 @
                       [\<lparr>m_id = i, m_date = today, m_opponent = ''Real Madrid'',
                         m_home_away = Some ''HOME'', m_status = Some ''final''\<rparr>],
                     matches_seq := i\<rparr>)
         else d1)"

datatype request =
    GetPlayers
  | PostPlayer player_body
  | PostPoints jsnum points_body
  | PostAllocate allocate_body
  | GetLeaderboard
  | GetMatches
  | PostMatch match_body
  | PostVote string jsnum vote_body
  | GetResults jsnum

fun handle :: "builtins \<Rightarrow> db \<Rightarrow> request \<Rightarrow> db \<times> response" where
  "handle B d GetPlayers = listPlayers d"
| "handle B d (PostPlayer body) = createPlayer d body"
| "handle B d (PostPoints ident body) = adjustPoints d ident body"
| "handle B d (PostAllocate body) = allocate B d body"
| "handle B d GetLeaderboard = (d, LeaderboardRows (leaderboard B d))"
| "handle B d GetMatches = listMatches d"
| "handle B d (PostMatch body) = createMatch d body"
| "handle B d (PostVote now mid body) = vote B now d mid body"
| "handle B d (GetResults mid) = (d, ResultRows (results d mid))"

text \<open>The database after a sequence of requests.\<close>

fun serve :: "builtins \<Rightarrow> db \<Rightarrow> request list \<Rightarrow> db" where
  "serve B d [] = d"
| "serve B d (r # rs) = serve B (fst (handle B d r)) rs"

section \<open>Definitions for the properties\<close>

subsection \<open>A database and platform conversions to run the model on\<close>

text \<open>The database after start-up on an empty file.\<close>

definition seeded_db :: db where
  "seeded_db = startup ''2025-10-26'' empty_db"

text \<open>The value of a decimal digit.\<close>

definition digit_value :: "char \<Rightarrow> nat option" where
  "digit_value = map_of (zip ''0123456789'' [0, 1, 2, 3, 4, 5, 6, 7, 8, 9])"

fun decimal_from :: "nat \<Rightarrow> string \<Rightarrow> nat option" where
  "decimal_from acc [] = Some acc"
| "decimal_from acc (c # cs) =
     (case digit_value c of None \<Rightarrow> None | Some k \<Rightarrow> decimal_from (10 * acc + k) cs)"

definition decimal :: "string \<Rightarrow> nat option" where
  "decimal s = (if s = [] then None else decimal_from 0 s)"

text \<open>An instance of the platform for the examples: the conversions of strings on
  strings of decimal digits (and on the empty string), where JavaScript and SQLite agree
  with the plain reading of the digits, and exact arithmetic for the scores, which is
  what SQLite computes whenever every quotient and every sum along the way is a double.
  The examples below use strings of digits, finite totals and scores of that kind only.\<close>

definition decimal_builtins :: builtins where
  "decimal_builtins =
     \<lparr>StringToNumber = (\<lambda>s. if s = [] then Fin 0
                             else (case decimal s of Some n \<Rightarrow> to_double (int n) | None \<Rightarrow> NaN)),
      text_integer = (\<lambda>s. map_option int (decimal s)),
      score_term = (\<lambda>v t.
         (case (v, t) of
            (CInt n, SqlInt k) \<Rightarrow> Some (real_of_int (n * k) / 100)
          | (CText s, SqlInt k) \<Rightarrow>
              Some (real_of_int ((case decimal s of Some n \<Rightarrow> int n | None \<Rightarrow> 0) * k) / 100)
          | _ \<Rightarrow> None)),
      real_sum = sum_list\<rparr>"

subsection \<open>Numbers that are doubles\<close>

text \<open>The integers that are doubles. A number of a request body is one, and so is a
  number that \<open>Number\<close> returns or that is read from a column.\<close>

definition is_double :: "int \<Rightarrow> bool" where
  "is_double n \<longleftrightarrow> to_double n = Fin n"

fun double_number :: "jsnum \<Rightarrow> bool" where
  "double_number (Fin n) = is_double n"
| "double_number x = True"

fun json_number :: "jsval \<Rightarrow> bool" where
  "json_number (JNum n) = is_double n"
| "json_number v = True"

subsection \<open>The allocation total\<close>

text \<open>The total in the words of the specification: ``non-numeric values coerce to 0
  before summing''.\<close>

fun spec_points :: "jsval \<Rightarrow> int" where
  "spec_points (JNum n) = n"
| "spec_points v = 0"

definition spec_total :: "alloc_entry list \<Rightarrow> int" where
  "spec_total allocs = sum_list (map (\<lambda>a. spec_points (points_allocated a)) allocs)"

text \<open>What one value counts in the total of the code: the absent value, null, false,
  0 and the empty string count 0, true counts 1, a number counts itself, and any other
  string counts what \<open>Number\<close> reads from it, which may be \<open>NaN\<close> or infinite.\<close>

fun counted_points :: "builtins \<Rightarrow> jsval \<Rightarrow> jsnum" where
  "counted_points B JUndefined = Fin 0"
| "counted_points B JNull = Fin 0"
| "counted_points B (JBool b) = Fin (if b then 1 else 0)"
| "counted_points B (JNum n) = Fin n"
| "counted_points B (JStr s) = (if s = [] then Fin 0 else StringToNumber B s)"


fun fin_value :: "jsnum \<Rightarrow> int" where
  "fin_value (Fin n) = n"
| "fin_value x = 0"

text \<open>The values added up from left to right in double arithmetic.\<close>

definition double_total :: "builtins \<Rightarrow> alloc_entry list \<Rightarrow> jsnum" where
  "double_total B entries =
     foldl (\<lambda>s a. js_add s (counted_points B (points_allocated a))) (Fin 0) entries"

text \<open>The exact sum of the values, and the sum of their sizes: when this is at most
  \<open>2^53\<close> no sum along the way is rounded.\<close>

definition counted_sum :: "builtins \<Rightarrow> alloc_entry list \<Rightarrow> int" where
  "counted_sum B entries =
     sum_list (map (\<lambda>a. fin_value (counted_points B (points_allocated a))) entries)"


subsection \<open>The outcome of a point adjustment\<close>

text \<open>The adjustment answers the total \<open>t\<close> for the player of the row and stores it in
  that row.\<close>

definition adjusts_to :: "db \<Rightarrow> jsnum \<Rightarrow> points_body \<Rightarrow> player_row \<Rightarrow> sqlnum \<Rightarrow> bool" where
  "adjusts_to d ident body row t \<longleftrightarrow>
     snd (adjustPoints d ident body) = OkPoints (p_id row) t
     \<and> getPlayer (fst (adjustPoints d ident body)) ident = Some (row\<lparr>p_total_points := t\<rparr>)"

subsection \<open>Keys of the two ledgers\<close>

text \<open>\<open>UNIQUE(user_id, player_id)\<close> and \<open>UNIQUE(match_id, user_email)\<close>\<close>

definition allocation_keys :: "db \<Rightarrow> (int \<times> int) list" where
  "allocation_keys d = map (\<lambda>r. (a_user_id r, a_player_id r)) (allocations d)"

definition vote_keys :: "db \<Rightarrow> (int \<times> string) list" where
  "vote_keys d = map (\<lambda>r. (v_match_id r, v_user_email r)) (potm_votes d)"

subsection \<open>A database with a user\<close>

text \<open>The seeded database after Ana has allocated 60 points to player 1 and 40 to
  player 2.\<close>

definition ana_db :: db where
  "ana_db =
     fst (allocate decimal_builtins seeded_db
       \<lparr>ab_name = Some ''Ana'', ab_email = Some ''ana@example.com'',
        ab_allocations = Some
          [Some \<lparr>player_id = JNum 1, points_allocated = JNum 60\<rparr>,
           Some \<lparr>player_id = JNum 2, points_allocated = JNum 40\<rparr>]\<rparr>)"

subsection \<open>A database with scores\<close>

text \<open>The seeded database after players 1, 2 and 3 were set to 80, 20 and 5 points, Ana,
  Bea, Cai and Eve have submitted allocations, and Dan has voted without allocating. Every
  quotient and every sum of the scores is a double: Cai scores \<open>20 + 5 + 2.5\<close>.\<close>

definition league_requests :: "request list" where
  "league_requests =
     [PostPoints (Fin 1) \<lparr>delta = JUndefined, set_to = JNum 80\<rparr>,
      PostPoints (Fin 2) \<lparr>delta = JUndefined, set_to = JNum 20\<rparr>,
      PostPoints (Fin 3) \<lparr>delta = JNum 5, set_to = JUndefined\<rparr>,
      PostAllocate \<lparr>ab_name = Some ''Ana'', ab_email = Some ''ana@example.com'',
        ab_allocations = Some
          [Some \<lparr>player_id = JNum 1, points_allocated = JNum 60\<rparr>,
           Some \<lparr>player_id = JNum 2, points_allocated = JNum 40\<rparr>]\<rparr>,
      PostAllocate \<lparr>ab_name = Some ''Bea'', ab_email = Some ''bea@example.com'',
        ab_allocations = Some [Some \<lparr>player_id = JNum 3, points_allocated = JNum 100\<rparr>]\<rparr>,
      PostAllocate \<lparr>ab_name = Some ''Cai'', ab_email = Some ''cai@example.com'',
        ab_allocations = Some
          [Some \<lparr>player_id = JNum 1, points_allocated = JNum 25\<rparr>,
           Some \<lparr>player_id = JNum 2, points_allocated = JNum 25\<rparr>,
           Some \<lparr>player_id = JNum 3, points_allocated = JNum 50\<rparr>]\<rparr>,
      PostVote ''2025-10-26 22:00:00'' (Fin 1)
        \<lparr>vb_name = Some ''Dan'', vb_email = Some ''dan@example.com'', vb_player_id = JNum 2\<rparr>,
      PostAllocate \<lparr>ab_name = Some ''Eve'', ab_email = Some ''eve@example.com'',
        ab_allocations = Some
          [Some \<lparr>player_id = JNum 2, points_allocated = JNum 40\<rparr>,
           Some \<lparr>player_id = JNum 1, points_allocated = JNum 60\<rparr>]\<rparr>]"

definition league_db :: db where
  "league_db = serve decimal_builtins seeded_db league_requests"

subsection \<open>The primary key of the players\<close>

text \<open>\<open>id INTEGER PRIMARY KEY AUTOINCREMENT\<close>: the ids are distinct and none is above the
  last one handed out.\<close>

definition players_pk :: "db \<Rightarrow> bool" where
  "players_pk d \<longleftrightarrow>
     distinct (map p_id (players d)) \<and> list_all (\<lambda>p. p_id p \<le> players_seq d) (players d)"


section \<open>Auxiliary facts\<close>

subsection \<open>The seeded database\<close>

lemma seeded_db_eq:
  "seeded_db =
     \<lparr>users = [], users_seq = 0,
      players =
        [\<lparr>p_id = 1, p_name = ''Lamine Yamal'', p_club = ''FC Barcelona'', p_photo_url = [],
          p_total_points = SqlInt 0\<rparr>,
         \<lparr>p_id = 2, p_name = ''Pedri'', p_club = ''FC Barcelona'', p_photo_url = [],
          p_total_points = SqlInt 0\<rparr>,
         \<lparr>p_id = 3, p_name = ''Gavi'', p_club = ''FC Barcelona'', p_photo_url = [],
          p_total_points = SqlInt 0\<rparr>],
      players_seq = 3, allocations = [],
      matches =
        [\<lparr>m_id = 1, m_date = ''2025-10-26'', m_opponent = ''Real Madrid'',
          m_home_away = Some ''HOME'', m_status = Some ''final''\<rparr>],
      matches_seq = 1, potm_votes = []\<rparr>"
  by (simp add: seeded_db_def startup_def seed_player_def empty_db_def Let_def)

lemma ana_db_eq:
  "ana_db =
     \<lparr>users = [\<lparr>u_id = 1, u_name = ''Ana'', u_email = ''ana@example.com''\<rparr>], users_seq = 1,
      players =
        [\<lparr>p_id = 1, p_name = ''Lamine Yamal'', p_club = ''FC Barcelona'', p_photo_url = [],
          p_total_points = SqlInt 0\<rparr>,
         \<lparr>p_id = 2, p_name = ''Pedri'', p_club = ''FC Barcelona'', p_photo_url = [],
          p_total_points = SqlInt 0\<rparr>,
         \<lparr>p_id = 3, p_name = ''Gavi'', p_club = ''FC Barcelona'', p_photo_url = [],
          p_total_points = SqlInt 0\<rparr>],
      players_seq = 3,
      allocations =
        [\<lparr>a_user_id = 1, a_player_id = 1, a_points_allocated = CInt 60\<rparr>,
         \<lparr>a_user_id = 1, a_player_id = 2, a_points_allocated = CInt 40\<rparr>],
      matches =
        [\<lparr>m_id = 1, m_date = ''2025-10-26'', m_opponent = ''Real Madrid'',
          m_home_away = Some ''HOME'', m_status = Some ''final''\<rparr>],
      matches_seq = 1, potm_votes = []\<rparr>"
  by (simp add: ana_db_def allocate_def allocated_total_def js_or_def to_double_def tx_def
      resolve_user_def getUserByEmail_def createUser_def upsertAllocation_def Let_def
      seeded_db_eq)


lemma decimal_100: "decimal ''100'' = Some 100"
  by (simp add: decimal_def digit_value_def)

subsection \<open>Looking a player up and updating its points\<close>

lemma find_map_upd:
  "find P (map (\<lambda>p. if P p then f p else p) xs) = map_option f (find P xs)"
  if "\<And>p. P p \<Longrightarrow> P (f p)"
  using that by (induction xs) auto

lemma getPlayer_updatePoints:
  "getPlayer (updatePoints d t ident) ident =
     map_option (\<lambda>p. p\<lparr>p_total_points := t\<rparr>) (getPlayer d ident)"
  unfolding getPlayer_def updatePoints_def
  by (simp add: find_map_upd)

lemma find_distinct_unique:
  "distinct (map f xs) \<Longrightarrow> find (\<lambda>x. f x = k) xs = Some y \<Longrightarrow> x \<in> set xs \<Longrightarrow> f x = k \<Longrightarrow> x = y"
  by (induction xs) (auto split: if_splits simp: find_Some_iff image_iff)

lemma updatePoints_same:
  assumes "distinct (map p_id (players d))" "getPlayer d ident = Some row"
  shows "updatePoints d (p_total_points row) ident = d"
proof -
  have "p = row" if "p \<in> set (players d)" "Fin (p_id p) = ident" for p
  proof -
    from assms(2) have "ident = Fin (p_id row)"
      unfolding getPlayer_def by (auto simp: find_Some_iff)
    with that(2) have k: "p_id p = p_id row" by simp
    from assms(2) have "find (\<lambda>x. p_id x = p_id row) (players d) = Some row"
      unfolding getPlayer_def \<open>ident = Fin (p_id row)\<close> by simp
    from find_distinct_unique[OF assms(1) this that(1) k] show ?thesis .
  qed
  then have "map (\<lambda>p. if Fin (p_id p) = ident then p\<lparr>p_total_points := p_total_points row\<rparr> else p)
      (players d) = players d"
    by (intro map_idI) auto
  then show ?thesis by (simp add: updatePoints_def)
qed

lemma bind_read_total: "bind_total (read_total t) = t"
  by (cases t) simp_all

subsection \<open>The total of a submission\<close>












lemma is_double_small: "\<bar>n\<bar> \<le> 2 ^ 53 \<Longrightarrow> is_double n"
  by (simp add: is_double_def to_double_def)



subsection \<open>The allocation transaction\<close>

lemma upsertAllocation_users: "upsertAllocation B d uid pv qv = Inr d' \<Longrightarrow> users d' = users d"
  by (auto simp: upsertAllocation_def Let_def split: sum.splits if_splits)

lemma upsert_all_users: "upsert_all B d uid allocs = Inr d' \<Longrightarrow> users d' = users d"
proof (induction allocs arbitrary: d)
  case Nil
  then show ?case by simp
next
  case (Cons a as)
  then show ?case
    by (cases a) (auto split: if_splits sum.splits dest: upsertAllocation_users)
qed




subsection \<open>Resolving a user that exists\<close>

lemma resolve_user_existing: "getUserByEmail d e = Some u \<Longrightarrow> resolve_user d n e = (d, u)"
  by (simp add: resolve_user_def)

lemma upsertVote_users: "upsertVote B now d m pv e = Inr d' \<Longrightarrow> users d' = users d"
  by (auto simp: upsertVote_def Let_def split: sum.splits if_splits)

lemma tx_existing_user:
  assumes "getUserByEmail d e = Some u" and "tx B d n e allocs = Inr (d', u')"
  shows "users d' = users d \<and> u' = u"
proof -
  from assms have "upsert_all B d (u_id u) allocs = Inr d' \<and> u' = u"
    by (simp add: tx_def resolve_user_existing split: sum.splits)
  then show ?thesis by (auto dest: upsert_all_users)
qed

lemma allocate_result:
  obtains (unchanged) resp where "allocate B d body = (d, resp)" and "\<forall>u. resp \<noteq> OkUser u"
  | (stored) d' u where
      "tx B d (the (ab_name body)) (the (ab_email body)) (the (ab_allocations body)) = Inr (d', u)"
      and "allocate B d body = (d', OkUser u)"
proof (cases "\<not> truthy_text (ab_name body) \<or> \<not> truthy_text (ab_email body)
    \<or> ab_allocations body = None")
  case True
  then have "allocate B d body = (d, ErrorResp 400 ''name, email, allocations[] required'')"
    by (simp add: allocate_def)
  then show ?thesis by (rule unchanged) simp
next
  case required: False
  show ?thesis
  proof (cases "allocated_total B (the (ab_allocations body))")
    case (Inl err)
    with required have "allocate B d body = (d, Unhandled err)" by (simp add: allocate_def)
    then show ?thesis by (rule unchanged) simp
  next
    case (Inr t)
    show ?thesis
    proof (cases "t = Fin 100")
      case False
      with required Inr
      have "allocate B d body = (d, ErrorResp 400 ''Total allocated points must equal 100'')"
        by (simp add: allocate_def)
      then show ?thesis by (rule unchanged) simp
    next
      case True
      show ?thesis
      proof (cases "tx B d (the (ab_name body)) (the (ab_email body)) (the (ab_allocations body))")
        case (Inl err)
        with required Inr True have "allocate B d body = (d, ErrorResp 500 ''Allocation failed'')"
          by (simp add: allocate_def)
        then show ?thesis by (rule unchanged) simp
      next
        case tx: (Inr r)
        obtain d' u where r: "r = (d', u)" by (cases r)
        from required Inr True tx r have "allocate B d body = (d', OkUser u)"
          by (simp add: allocate_def)
        with tx r show ?thesis by (auto intro: stored)
      qed
    qed
  qed
qed

lemma allocate_existing_user:
  assumes "getUserByEmail d e = Some u" and "ab_email body = Some e"
  shows "users (fst (allocate B d body)) = users d
      \<and> (\<forall>u'. snd (allocate B d body) = OkUser u' \<longrightarrow> u' = u)"
proof (cases rule: allocate_result [of B d body])
  case (unchanged resp)
  then show ?thesis by simp
next
  case (stored d' u')
  from tx_existing_user [OF assms(1), of B "the (ab_name body)" "the (ab_allocations body)" d' u']
    stored(1) assms(2)
  have "users d' = users d" "u' = u" by simp_all
  with stored(2) show ?thesis by simp
qed

lemma vote_existing_user:
  assumes "getUserByEmail d e = Some u" and "vb_email vbody = Some e"
  shows "users (fst (vote B now d mid vbody)) = users d"
proof (cases "getMatch d mid")
  case None
  then show ?thesis by (simp add: vote_def)
next
  case (Some m)
  show ?thesis
  proof (cases "upsertVote B now d (m_id m) (vb_player_id vbody) e")
    case (Inl err)
    with Some assms show ?thesis by (simp add: vote_def resolve_user_existing)
  next
    case (Inr d2)
    from upsertVote_users [OF this] Inr Some assms show ?thesis
      by (simp add: vote_def resolve_user_existing)
  qed
qed


subsection \<open>The keys of the allocation rows\<close>


lemma keys_upsert_alloc_row:
  "map (\<lambda>r. (a_user_id r, a_player_id r)) (upsert_alloc_row uid pid pts rs) =
     (if (uid, pid) \<in> set (map (\<lambda>r. (a_user_id r, a_player_id r)) rs)
      then map (\<lambda>r. (a_user_id r, a_player_id r)) rs
      else map (\<lambda>r. (a_user_id r, a_player_id r)) rs @ [(uid, pid)])"
  by (induction rs) auto

lemma find_upsert_alloc_row:
  "find (\<lambda>r. a_user_id r = uid \<and> a_player_id r = pid) (upsert_alloc_row uid pid pts rs) =
     Some \<lparr>a_user_id = uid, a_player_id = pid, a_points_allocated = pts\<rparr>"
  by (induction rs) auto

lemma upsertAllocation_Inr:
  assumes "upsertAllocation B d uid pv qv = Inr d'"
  shows "\<exists>pid pts. d' = d\<lparr>allocations := upsert_alloc_row uid pid pts (allocations d)\<rparr>"
  using assms
  by (auto simp: upsertAllocation_def Let_def split: sum.splits if_splits)

lemma upsertAllocation_distinct:
  assumes "upsertAllocation B d uid pv qv = Inr d'" and "distinct (allocation_keys d)"
  shows "distinct (allocation_keys d')"
proof -
  from upsertAllocation_Inr [OF assms(1)] obtain pid pts
    where "d' = d\<lparr>allocations := upsert_alloc_row uid pid pts (allocations d)\<rparr>"
    by blast
  with assms(2) show ?thesis
    by (simp add: allocation_keys_def keys_upsert_alloc_row)
qed

lemma upsert_all_distinct:
  "upsert_all B d uid allocs = Inr d' \<Longrightarrow> distinct (allocation_keys d)
    \<Longrightarrow> distinct (allocation_keys d')"
proof (induction allocs arbitrary: d)
  case Nil
  then show ?case by simp
next
  case (Cons a as)
  then show ?case
    by (cases a) (auto split: if_splits sum.splits dest: upsertAllocation_distinct)
qed

lemma resolve_user_allocations: "allocations (fst (resolve_user d n e)) = allocations d"
  by (simp add: resolve_user_def createUser_def Let_def split: option.splits)

lemma allocate_distinct:
  assumes "distinct (allocation_keys d)"
  shows "distinct (allocation_keys (fst (allocate B d body)))"
proof (cases rule: allocate_result [of B d body])
  case (unchanged resp)
  with assms show ?thesis by simp
next
  case (stored d' u)
  obtain d1 u1 where ru: "resolve_user d (the (ab_name body)) (the (ab_email body)) = (d1, u1)"
    by (cases "resolve_user d (the (ab_name body)) (the (ab_email body))")
  from resolve_user_allocations [of d "the (ab_name body)" "the (ab_email body)"] ru assms
  have "distinct (allocation_keys d1)" by (simp add: allocation_keys_def)
  moreover from stored(1) ru have "upsert_all B d1 (u_id u1) (the (ab_allocations body)) = Inr d'"
    by (auto simp: tx_def split: sum.splits)
  ultimately have "distinct (allocation_keys d')" by (rule upsert_all_distinct [rotated])
  with stored(2) show ?thesis by simp
qed

lemma upsertVote_allocations: "upsertVote B now d m pv e = Inr d' \<Longrightarrow> allocations d' = allocations d"
  by (auto simp: upsertVote_def Let_def split: sum.splits if_splits)

lemma vote_allocations: "allocations (fst (vote B now d mid body)) = allocations d"
proof -
  obtain d1 u1 where ru: "resolve_user d (the (vb_name body)) (the (vb_email body)) = (d1, u1)"
    by (cases "resolve_user d (the (vb_name body)) (the (vb_email body))")
  with resolve_user_allocations [of d "the (vb_name body)" "the (vb_email body)"]
  have "allocations d1 = allocations d" by simp
  with ru show ?thesis
    by (auto simp: vote_def split: option.splits sum.splits dest: upsertVote_allocations)
qed

lemma handle_distinct_allocation_keys:
  assumes "distinct (allocation_keys d)"
  shows "distinct (allocation_keys (fst (handle B d r)))"
proof (cases r)
  case (PostAllocate body)
  with allocate_distinct [OF assms] show ?thesis by simp
next
  case (PostVote now mid body)
  with assms vote_allocations [of B now d mid body] show ?thesis
    by (simp add: allocation_keys_def)
next
  case (PostPlayer body)
  with assms show ?thesis by (simp add: createPlayer_def allocation_keys_def Let_def)
next
  case (PostPoints ident body)
  with assms show ?thesis
    by (simp add: adjustPoints_def updatePoints_def allocation_keys_def Let_def split: option.splits)
next
  case (PostMatch body)
  with assms show ?thesis by (simp add: createMatch_def allocation_keys_def Let_def)
qed (use assms in \<open>simp_all add: listPlayers_def listMatches_def\<close>)

lemma serve_distinct_allocation_keys:
  "distinct (allocation_keys d) \<Longrightarrow> distinct (allocation_keys (serve B d reqs))"
  by (induction reqs arbitrary: d) (simp_all add: handle_distinct_allocation_keys)

lemma startup_allocations: "allocations (startup today empty_db) = []"
  by (simp add: startup_def seed_player_def empty_db_def Let_def)


subsection \<open>The keys of the vote rows\<close>

lemma keys_upsert_vote_row:
  "map (\<lambda>r. (v_match_id r, v_user_email r)) (upsert_vote_row now m p e rs) =
     (if (m, e) \<in> set (map (\<lambda>r. (v_match_id r, v_user_email r)) rs)
      then map (\<lambda>r. (v_match_id r, v_user_email r)) rs
      else map (\<lambda>r. (v_match_id r, v_user_email r)) rs @ [(m, e)])"
  by (induction rs) auto

lemma filter_key_upsert_vote_row:
  "distinct (map (\<lambda>r. (v_match_id r, v_user_email r)) rs) \<Longrightarrow>
   filter (\<lambda>r. v_match_id r = m \<and> v_user_email r = e) (upsert_vote_row now m p e rs) =
     [\<lparr>v_match_id = m, v_player_id = p, v_user_email = e, v_created_at = now\<rparr>]"
proof (induction rs)
  case Nil
  then show ?case by simp
next
  case (Cons r rs)
  show ?case
  proof (cases "v_match_id r = m \<and> v_user_email r = e")
    case True
    with Cons.prems have "(m, e) \<notin> set (map (\<lambda>r. (v_match_id r, v_user_email r)) rs)"
      by auto
    then have "filter (\<lambda>r. v_match_id r = m \<and> v_user_email r = e) rs = []"
      by (auto simp: filter_empty_conv)
    with True show ?thesis by (cases r) simp
  next
    case False
    with Cons show ?thesis by auto
  qed
qed

lemma upsertVote_Inr:
  assumes "upsertVote B now d m pv e = Inr d'"
  shows "\<exists>pid. d' = d\<lparr>potm_votes := upsert_vote_row now m pid e (potm_votes d)\<rparr>"
  using assms
  by (auto simp: upsertVote_def Let_def split: sum.splits if_splits)

lemma upsertVote_distinct:
  assumes "upsertVote B now d m pv e = Inr d'" and "distinct (vote_keys d)"
  shows "distinct (vote_keys d')"
proof -
  from upsertVote_Inr [OF assms(1)] obtain pid
    where "d' = d\<lparr>potm_votes := upsert_vote_row now m pid e (potm_votes d)\<rparr>"
    by blast
  with assms(2) show ?thesis
    by (simp add: vote_keys_def keys_upsert_vote_row)
qed

lemma resolve_user_frame:
  "potm_votes (fst (resolve_user d n e)) = potm_votes d"
  "players (fst (resolve_user d n e)) = players d"
  "matches (fst (resolve_user d n e)) = matches d"
  by (simp_all add: resolve_user_def createUser_def Let_def split: option.splits)

lemma vote_distinct:
  assumes "distinct (vote_keys d)"
  shows "distinct (vote_keys (fst (vote B now d mid body)))"
proof (cases "getMatch d mid")
  case None
  with assms show ?thesis by (simp add: vote_def)
next
  case (Some mm)
  obtain d1 u1 where ru: "resolve_user d (the (vb_name body)) (the (vb_email body)) = (d1, u1)"
    by (cases "resolve_user d (the (vb_name body)) (the (vb_email body))")
  with resolve_user_frame(1) [of d "the (vb_name body)" "the (vb_email body)"] assms
  have d1: "distinct (vote_keys d1)" by (simp add: vote_keys_def)
  show ?thesis
  proof (cases "upsertVote B now d1 (m_id mm) (vb_player_id body) (the (vb_email body))")
    case (Inl err)
    with Some ru d1 assms show ?thesis by (simp add: vote_def)
  next
    case (Inr d2)
    from upsertVote_distinct [OF Inr d1] Inr Some ru assms show ?thesis
      by (simp add: vote_def)
  qed
qed

lemma upsertAllocation_votes: "upsertAllocation B d uid pv qv = Inr d' \<Longrightarrow> potm_votes d' = potm_votes d"
  by (auto simp: upsertAllocation_def Let_def split: sum.splits if_splits)

lemma upsert_all_votes: "upsert_all B d uid allocs = Inr d' \<Longrightarrow> potm_votes d' = potm_votes d"
proof (induction allocs arbitrary: d)
  case Nil
  then show ?case by simp
next
  case (Cons a as)
  then show ?case
    by (cases a) (auto split: if_splits sum.splits dest: upsertAllocation_votes)
qed

lemma allocate_votes: "potm_votes (fst (allocate B d body)) = potm_votes d"
proof (cases rule: allocate_result [of B d body])
  case (unchanged resp)
  then show ?thesis by simp
next
  case (stored d' u)
  obtain d1 u1 where ru: "resolve_user d (the (ab_name body)) (the (ab_email body)) = (d1, u1)"
    by (cases "resolve_user d (the (ab_name body)) (the (ab_email body))")
  from resolve_user_frame(1) [of d "the (ab_name body)" "the (ab_email body)"] ru
  have "potm_votes d1 = potm_votes d" by simp
  moreover from stored(1) ru have "upsert_all B d1 (u_id u1) (the (ab_allocations body)) = Inr d'"
    by (auto simp: tx_def split: sum.splits)
  ultimately have "potm_votes d' = potm_votes d" by (auto dest: upsert_all_votes)
  with stored(2) show ?thesis by simp
qed

lemma handle_distinct_vote_keys:
  assumes "distinct (vote_keys d)"
  shows "distinct (vote_keys (fst (handle B d r)))"
proof (cases r)
  case (PostAllocate body)
  with assms allocate_votes [of B d body] show ?thesis by (simp add: vote_keys_def)
next
  case (PostVote now mid body)
  with vote_distinct [OF assms] show ?thesis by simp
next
  case (PostPlayer body)
  with assms show ?thesis by (simp add: createPlayer_def vote_keys_def Let_def)
next
  case (PostPoints ident body)
  with assms show ?thesis
    by (simp add: adjustPoints_def updatePoints_def vote_keys_def Let_def split: option.splits)
next
  case (PostMatch body)
  with assms show ?thesis by (simp add: createMatch_def vote_keys_def Let_def)
qed (use assms in \<open>simp_all add: listPlayers_def listMatches_def\<close>)

lemma serve_distinct_vote_keys:
  "distinct (vote_keys d) \<Longrightarrow> distinct (vote_keys (serve B d reqs))"
  by (induction reqs arbitrary: d) (simp_all add: handle_distinct_vote_keys)

lemma startup_votes: "potm_votes (startup today empty_db) = []"
  by (simp add: startup_def seed_player_def empty_db_def Let_def)

subsection \<open>A vote that is accepted\<close>

lemma getMatch_Some: "getMatch d (Fin m) = Some mm \<Longrightarrow> m_id mm = m \<and> m \<in> set (map m_id (matches d))"
  by (auto simp: getMatch_def find_Some_iff)

lemma vote_accepted:
  assumes "vote B now d (Fin m) \<lparr>vb_name = Some n, vb_email = Some e, vb_player_id = JNum p\<rparr>
      = (d', OkOnly)"
  shows "potm_votes d' = upsert_vote_row now m p e (potm_votes d)"
proof -
  obtain d1 u1 where ru: "resolve_user d n e = (d1, u1)"
    by (cases "resolve_user d n e")
  with resolve_user_frame(1) [of d n e] have v1: "potm_votes d1 = potm_votes d" by simp
  from assms obtain mm where mm: "getMatch d (Fin m) = Some mm"
    by (auto simp: vote_def split: if_splits option.splits)
  with getMatch_Some have m: "m_id mm = m" by blast
  from assms mm ru m have "upsertVote B now d1 m (JNum p) e = Inr d'"
    by (auto simp: vote_def split: if_splits sum.splits)
  then have "d' = d1\<lparr>potm_votes := upsert_vote_row now m p e (potm_votes d1)\<rparr>"
    by (auto simp: upsertVote_def Let_def split: if_splits)
  with v1 show ?thesis by simp
qed

lemma vote_accepts:
  assumes "n \<noteq> []" "e \<noteq> []" "p \<noteq> 0" "getMatch d (Fin m) \<noteq> None"
    "p \<in> set (map p_id (players d))"
  shows "potm_votes (fst (vote B now d (Fin m)
          \<lparr>vb_name = Some n, vb_email = Some e, vb_player_id = JNum p\<rparr>))
        = upsert_vote_row now m p e (potm_votes d)
      \<and> players (fst (vote B now d (Fin m)
          \<lparr>vb_name = Some n, vb_email = Some e, vb_player_id = JNum p\<rparr>)) = players d
      \<and> matches (fst (vote B now d (Fin m)
          \<lparr>vb_name = Some n, vb_email = Some e, vb_player_id = JNum p\<rparr>)) = matches d"
proof -
  obtain d1 u1 where ru: "resolve_user d n e = (d1, u1)"
    by (cases "resolve_user d n e")
  with resolve_user_frame [of d n e]
  have f: "potm_votes d1 = potm_votes d" "players d1 = players d" "matches d1 = matches d"
    by simp_all
  from assms(4) obtain mm where mm: "getMatch d (Fin m) = Some mm" by auto
  with getMatch_Some have m: "m_id mm = m" "m \<in> set (map m_id (matches d))" by blast+
  from assms(5) m f have "upsertVote B now d1 m (JNum p) e
      = Inr (d1\<lparr>potm_votes := upsert_vote_row now m p e (potm_votes d1)\<rparr>)"
    by (simp add: upsertVote_def Let_def)
  with assms(1-3) mm ru m f show ?thesis
    by (simp add: vote_def)
qed

subsection \<open>Counting the votes of a player\<close>

lemma count_upsert_vote_row:
  "length (filter (\<lambda>v. v_player_id v = q \<and> v_match_id v = m) (upsert_vote_row now m p e rs))
     + (case find (\<lambda>r. v_match_id r = m \<and> v_user_email r = e) rs of
          None \<Rightarrow> 0 | Some r \<Rightarrow> if v_player_id r = q then 1 else 0)
   = length (filter (\<lambda>v. v_player_id v = q \<and> v_match_id v = m) rs) + (if p = q then 1 else 0)"
  by (induction rs) auto

lemma find_upsert_vote_row:
  "\<exists>r. find (\<lambda>r. v_match_id r = m \<and> v_user_email r = e) (upsert_vote_row now m p e rs) = Some r
     \<and> v_player_id r = p"
  by (induction rs) auto

lemma find_counted:
  assumes "find (\<lambda>r. v_match_id r = m \<and> v_user_email r = e) rs = Some r"
  shows "0 < length (filter (\<lambda>v. v_player_id v = v_player_id r \<and> v_match_id v = m) rs)"
proof -
  from assms have "r \<in> set rs" "v_match_id r = m"
    by (auto simp: find_Some_iff)
  then have "r \<in> set (filter (\<lambda>v. v_player_id v = v_player_id r \<and> v_match_id v = m) rs)"
    by simp
  then show ?thesis by (auto simp: length_greater_0_conv simp del: set_filter)
qed

lemma count_votes_eq:
  "count_votes d (Fin m) q
     = length (filter (\<lambda>v. v_player_id v = q \<and> v_match_id v = m) (potm_votes d))"
  by (simp add: count_votes_def)

lemma revote_counts:
  assumes "pa \<noteq> pb"
    and "length (filter (\<lambda>v. v_player_id v = pa \<and> v_match_id v = m) rs) = 0"
    and "length (filter (\<lambda>v. v_player_id v = pb \<and> v_match_id v = m) rs) = 0"
  shows "length (filter (\<lambda>v. v_player_id v = pb \<and> v_match_id v = m)
           (upsert_vote_row t2 m pb e (upsert_vote_row t1 m pa e rs))) = 1
       \<and> length (filter (\<lambda>v. v_player_id v = pa \<and> v_match_id v = m)
           (upsert_vote_row t2 m pb e (upsert_vote_row t1 m pa e rs))) = 0"
proof -
  let ?key = "\<lambda>r. v_match_id r = m \<and> v_user_email r = e"
  let ?rs1 = "upsert_vote_row t1 m pa e rs"
  have prev: "(case find ?key rs of None \<Rightarrow> 0 | Some r \<Rightarrow> if v_player_id r = q then 1 else 0)
      = (0::nat)" if "length (filter (\<lambda>v. v_player_id v = q \<and> v_match_id v = m) rs) = 0" for q
  proof (cases "find ?key rs")
    case None
    then show ?thesis by simp
  next
    case (Some r)
    from find_counted [OF Some] that have "v_player_id r \<noteq> q" by auto
    with Some show ?thesis by simp
  qed
  from count_upsert_vote_row [of pa m t1 pa e rs] prev [OF assms(2)] assms(2)
  have a1: "length (filter (\<lambda>v. v_player_id v = pa \<and> v_match_id v = m) ?rs1) = 1"
    by simp
  from count_upsert_vote_row [of pb m t1 pa e rs] prev [OF assms(3)] assms(1,3)
  have b1: "length (filter (\<lambda>v. v_player_id v = pb \<and> v_match_id v = m) ?rs1) = 0"
    by simp
  from find_upsert_vote_row [of m e t1 pa rs] obtain r1
    where r1: "find ?key ?rs1 = Some r1" "v_player_id r1 = pa" by blast
  from count_upsert_vote_row [of pb m t2 pb e ?rs1] r1 b1 assms(1)
  have b2: "length (filter (\<lambda>v. v_player_id v = pb \<and> v_match_id v = m)
      (upsert_vote_row t2 m pb e ?rs1)) = 1"
    by simp
  from count_upsert_vote_row [of pa m t2 pb e ?rs1] r1 a1 assms(1)
  have a2: "length (filter (\<lambda>v. v_player_id v = pa \<and> v_match_id v = m)
      (upsert_vote_row t2 m pb e ?rs1)) = 0"
    by simp
  from a2 b2 show ?thesis by simp
qed

lemma results_votes:
  "r \<in> set (results d mid) \<Longrightarrow> votes r = count_votes d mid (r_player_id r)"
  by (auto simp: results_def result_group_def)

lemma results_ids: "r_player_id ` set (results d mid) = p_id ` set (players d)"
  by (auto simp: results_def result_group_def image_iff)

subsection \<open>Ordering of the results and of the leaderboard\<close>

lemma results_player_ids:
  "mset (map r_player_id (results d mid)) = mset (map p_id (players d))"
proof -
  have "mset (map r_player_id (results d mid))
      = image_mset r_player_id (mset (map (result_group d mid) (players d)))"
    by (simp add: results_def)
  also have "\<dots> = mset (map (r_player_id \<circ> result_group d mid) (players d))"
    by (simp add: image_mset.compositionality comp_def)
  also have "r_player_id \<circ> result_group d mid = p_id"
    by (auto simp: result_group_def)
  finally show ?thesis .
qed

lemma results_sorted:
  "sorted_wrt (\<lambda>a b. votes a > votes b \<or> (votes a = votes b \<and> r_player_name a \<le> r_player_name b))
     (results d mid)"
proof -
  have "sorted (map (\<lambda>r. (- int (votes r), r_player_name r)) (results d mid))"
    unfolding results_def by (rule sorted_sort_key)
  then have "sorted_wrt (\<lambda>a b. (- int (votes a), r_player_name a) \<le> (- int (votes b), r_player_name b))
      (results d mid)"
    by (simp add: sorted_map)
  then show ?thesis
    by (rule sorted_wrt_mono_rel [rotated]) auto
qed


lemma leaderboard_sorted:
  "sorted_wrt (\<lambda>a b. portfolio_points a > portfolio_points b
       \<or> (portfolio_points a = portfolio_points b \<and> lb_id a \<le> lb_id b)) (leaderboard B d)"
proof -
  let ?rows = "sort_key (\<lambda>r. (- portfolio_points r, lb_id r)) (map (leaderboard_group B d) (users d))"
  have "sorted (map (\<lambda>r. (- portfolio_points r, lb_id r)) ?rows)"
    by (rule sorted_sort_key)
  then have "sorted_wrt (\<lambda>a b. (- portfolio_points a, lb_id a) \<le> (- portfolio_points b, lb_id b)) ?rows"
    by (simp add: sorted_map)
  then have "sorted_wrt (\<lambda>a b. portfolio_points a > portfolio_points b
       \<or> (portfolio_points a = portfolio_points b \<and> lb_id a \<le> lb_id b)) ?rows"
    by (rule sorted_wrt_mono_rel [rotated]) auto
  then show ?thesis
    unfolding leaderboard_def by (rule sorted_wrt_take)
qed


subsection \<open>The database with scores\<close>

lemma league_db_eq:
  "league_db =
     \<lparr>users =
        [\<lparr>u_id = 1, u_name = ''Ana'', u_email = ''ana@example.com''\<rparr>,
         \<lparr>u_id = 2, u_name = ''Bea'', u_email = ''bea@example.com''\<rparr>,
         \<lparr>u_id = 3, u_name = ''Cai'', u_email = ''cai@example.com''\<rparr>,
         \<lparr>u_id = 4, u_name = ''Dan'', u_email = ''dan@example.com''\<rparr>,
         \<lparr>u_id = 5, u_name = ''Eve'', u_email = ''eve@example.com''\<rparr>],
      users_seq = 5,
      players =
        [\<lparr>p_id = 1, p_name = ''Lamine Yamal'', p_club = ''FC Barcelona'', p_photo_url = [],
          p_total_points = SqlInt 80\<rparr>,
         \<lparr>p_id = 2, p_name = ''Pedri'', p_club = ''FC Barcelona'', p_photo_url = [],
          p_total_points = SqlInt 20\<rparr>,
         \<lparr>p_id = 3, p_name = ''Gavi'', p_club = ''FC Barcelona'', p_photo_url = [],
          p_total_points = SqlInt 5\<rparr>],
      players_seq = 3,
      allocations =
        [\<lparr>a_user_id = 1, a_player_id = 1, a_points_allocated = CInt 60\<rparr>,
         \<lparr>a_user_id = 1, a_player_id = 2, a_points_allocated = CInt 40\<rparr>,
         \<lparr>a_user_id = 2, a_player_id = 3, a_points_allocated = CInt 100\<rparr>,
         \<lparr>a_user_id = 3, a_player_id = 1, a_points_allocated = CInt 25\<rparr>,
         \<lparr>a_user_id = 3, a_player_id = 2, a_points_allocated = CInt 25\<rparr>,
         \<lparr>a_user_id = 3, a_player_id = 3, a_points_allocated = CInt 50\<rparr>,
         \<lparr>a_user_id = 5, a_player_id = 2, a_points_allocated = CInt 40\<rparr>,
         \<lparr>a_user_id = 5, a_player_id = 1, a_points_allocated = CInt 60\<rparr>],
      matches =
        [\<lparr>m_id = 1, m_date = ''2025-10-26'', m_opponent = ''Real Madrid'',
          m_home_away = Some ''HOME'', m_status = Some ''final''\<rparr>],
      matches_seq = 1,
      potm_votes =
        [\<lparr>v_match_id = 1, v_player_id = 2, v_user_email = ''dan@example.com'',
          v_created_at = ''2025-10-26 22:00:00''\<rparr>]\<rparr>"
  by (simp add: league_db_def league_requests_def seeded_db_eq
      adjustPoints_def getPlayer_def updatePoints_def
      allocate_def allocated_total_def js_or_def to_double_def tx_def
      resolve_user_def getUserByEmail_def createUser_def upsertAllocation_def
      vote_def getMatch_def upsertVote_def Let_def)

lemma league_portfolios:
  "portfolio decimal_builtins league_db 1 = 56" "portfolio decimal_builtins league_db 2 = 5"
  "portfolio decimal_builtins league_db 3 = 55 / 2" "portfolio decimal_builtins league_db 4 = 0"
  "portfolio decimal_builtins league_db 5 = 56"
  by (simp_all add: portfolio_def portfolio_terms_def score_of_def decimal_builtins_def league_db_eq)

lemma league_leaderboard:
  "leaderboard decimal_builtins league_db =
     [\<lparr>lb_id = 1, lb_name = ''Ana'', lb_email = ''ana@example.com'', portfolio_points = 56\<rparr>,
      \<lparr>lb_id = 5, lb_name = ''Eve'', lb_email = ''eve@example.com'', portfolio_points = 56\<rparr>,
      \<lparr>lb_id = 3, lb_name = ''Cai'', lb_email = ''cai@example.com'', portfolio_points = 55 / 2\<rparr>,
      \<lparr>lb_id = 2, lb_name = ''Bea'', lb_email = ''bea@example.com'', portfolio_points = 5\<rparr>,
      \<lparr>lb_id = 4, lb_name = ''Dan'', lb_email = ''dan@example.com'', portfolio_points = 0\<rparr>]"
proof -
  have u: "users league_db =
        [\<lparr>u_id = 1, u_name = ''Ana'', u_email = ''ana@example.com''\<rparr>,
         \<lparr>u_id = 2, u_name = ''Bea'', u_email = ''bea@example.com''\<rparr>,
         \<lparr>u_id = 3, u_name = ''Cai'', u_email = ''cai@example.com''\<rparr>,
         \<lparr>u_id = 4, u_name = ''Dan'', u_email = ''dan@example.com''\<rparr>,
         \<lparr>u_id = 5, u_name = ''Eve'', u_email = ''eve@example.com''\<rparr>]"
    by (simp add: league_db_eq)
  show ?thesis
    unfolding leaderboard_def u
    by (simp add: leaderboard_group_def league_portfolios)
qed

subsection \<open>The results of the database with scores\<close>

lemma league_results:
  "results league_db (Fin 1)
     = [\<lparr>r_player_id = 2, r_player_name = ''Pedri'', votes = 1\<rparr>,
        \<lparr>r_player_id = 3, r_player_name = ''Gavi'', votes = 0\<rparr>,
        \<lparr>r_player_id = 1, r_player_name = ''Lamine Yamal'', votes = 0\<rparr>]"
  by (simp add: results_def result_group_def count_votes_def league_db_eq)


subsection \<open>The primary key of the players is kept\<close>

lemma resolve_user_players:
  "players (fst (resolve_user d n e)) = players d"
  "players_seq (fst (resolve_user d n e)) = players_seq d"
  by (simp_all add: resolve_user_def createUser_def Let_def split: option.splits)

lemma upsertAllocation_players:
  "upsertAllocation B d uid pv qv = Inr d' \<Longrightarrow> players d' = players d \<and> players_seq d' = players_seq d"
  by (auto simp: upsertAllocation_def Let_def split: sum.splits if_splits)

lemma upsert_all_players:
  "upsert_all B d uid allocs = Inr d' \<Longrightarrow> players d' = players d \<and> players_seq d' = players_seq d"
proof (induction allocs arbitrary: d)
  case Nil
  then show ?case by simp
next
  case (Cons a as)
  then show ?case
    by (cases a) (auto split: if_splits sum.splits dest: upsertAllocation_players)
qed

lemma allocate_players:
  "players (fst (allocate B d body)) = players d
   \<and> players_seq (fst (allocate B d body)) = players_seq d"
proof (cases rule: allocate_result [of B d body])
  case (unchanged resp)
  then show ?thesis by simp
next
  case (stored d' u)
  obtain d1 u1 where ru: "resolve_user d (the (ab_name body)) (the (ab_email body)) = (d1, u1)"
    by (cases "resolve_user d (the (ab_name body)) (the (ab_email body))")
  from resolve_user_players [of d "the (ab_name body)" "the (ab_email body)"] ru
  have "players d1 = players d" "players_seq d1 = players_seq d" by simp_all
  moreover from stored(1) ru have "upsert_all B d1 (u_id u1) (the (ab_allocations body)) = Inr d'"
    by (auto simp: tx_def split: sum.splits)
  ultimately have "players d' = players d \<and> players_seq d' = players_seq d"
    by (auto dest: upsert_all_players)
  with stored(2) show ?thesis by simp
qed

lemma upsertVote_players:
  "upsertVote B now d m pv e = Inr d' \<Longrightarrow> players d' = players d \<and> players_seq d' = players_seq d"
  by (auto simp: upsertVote_def Let_def split: sum.splits if_splits)

lemma vote_players:
  "players (fst (vote B now d mid body)) = players d
   \<and> players_seq (fst (vote B now d mid body)) = players_seq d"
proof -
  obtain d1 u1 where ru: "resolve_user d (the (vb_name body)) (the (vb_email body)) = (d1, u1)"
    by (cases "resolve_user d (the (vb_name body)) (the (vb_email body))")
  with resolve_user_players [of d "the (vb_name body)" "the (vb_email body)"]
  have "players d1 = players d" "players_seq d1 = players_seq d" by simp_all
  with ru show ?thesis
    by (auto simp: vote_def split: option.splits sum.splits dest: upsertVote_players)
qed

lemma createPlayer_pk:
  assumes "players_pk d"
  shows "players_pk (fst (createPlayer d body))"
proof (cases "truthy_text (pb_name body)")
  case False
  with assms show ?thesis by (simp add: createPlayer_def)
next
  case True
  from assms have "players_seq d + 1 \<notin> p_id ` set (players d)"
    by (auto simp: players_pk_def list_all_iff)
  moreover from assms have "list_all (\<lambda>p. p_id p \<le> players_seq d + 1) (players d)"
    by (auto simp: players_pk_def list_all_iff)
  ultimately show ?thesis using assms True
    by (simp add: createPlayer_def players_pk_def Let_def)
qed

lemma updatePoints_pk:
  assumes "players_pk d"
  shows "players_pk (updatePoints d t ident)"
proof -
  have c: "p_id \<circ> (\<lambda>p. if Fin (p_id p) = ident then p\<lparr>p_total_points := t\<rparr> else p) = p_id"
    by (auto simp: fun_eq_iff)
  from assms show ?thesis
    unfolding players_pk_def updatePoints_def
    by (auto simp: c list_all_iff)
qed

lemma adjustPoints_pk:
  assumes "players_pk d"
  shows "players_pk (fst (adjustPoints d ident body))"
proof (cases "getPlayer d ident")
  case None
  with assms show ?thesis by (simp add: adjustPoints_def)
next
  case (Some row)
  with updatePoints_pk [OF assms] show ?thesis
    by (simp add: adjustPoints_def Let_def)
qed

lemma handle_players_pk:
  assumes "players_pk d"
  shows "players_pk (fst (handle B d r))"
proof (cases r)
  case (PostAllocate body)
  with assms allocate_players [of B d body] show ?thesis by (simp add: players_pk_def)
next
  case (PostVote now mid body)
  with assms vote_players [of B now d mid body] show ?thesis by (simp add: players_pk_def)
next
  case (PostPlayer body)
  with createPlayer_pk [OF assms] show ?thesis by simp
next
  case (PostPoints ident body)
  with adjustPoints_pk [OF assms] show ?thesis by simp
next
  case (PostMatch body)
  with assms show ?thesis by (simp add: createMatch_def players_pk_def Let_def)
qed (use assms in \<open>simp_all add: listPlayers_def listMatches_def\<close>)

lemma serve_players_pk: "players_pk d \<Longrightarrow> players_pk (serve B d reqs)"
  by (induction reqs arbitrary: d) (simp_all add: handle_players_pk)

lemma startup_players_pk: "players_pk (startup today empty_db)"
  by (simp add: players_pk_def startup_def seed_player_def empty_db_def Let_def)

lemma served_players_distinct:
  "distinct (map p_id (players (serve B (startup today empty_db) reqs)))"
  using serve_players_pk [OF startup_players_pk, of B today reqs]
  by (simp add: players_pk_def)

section \<open>The properties\<close>

subsection \<open>Submissions whose total is not 100\<close>




text \<open>A string of digits is not counted as 0 either: the submission of the string
  \<open>"100"\<close> is accepted, and the user and the row are written.\<close>

lemma allocate_numeric_string:
  "spec_total [\<lparr>player_id = JNum 1, points_allocated = JStr ''100''\<rparr>] = 0
   \<and> allocate decimal_builtins seeded_db
        \<lparr>ab_name = Some ''Ana'', ab_email = Some ''ana@example.com'',
         ab_allocations = Some [Some \<lparr>player_id = JNum 1, points_allocated = JStr ''100''\<rparr>]\<rparr>
       = (seeded_db
            \<lparr>users := [\<lparr>u_id = 1, u_name = ''Ana'', u_email = ''ana@example.com''\<rparr>],
             users_seq := 1,
             allocations := [\<lparr>a_user_id = 1, a_player_id = 1, a_points_allocated = CInt 100\<rparr>]\<rparr>,
          OkUser \<lparr>u_id = 1, u_name = ''Ana'', u_email = ''ana@example.com''\<rparr>)"
  by (simp add: spec_total_def allocate_def allocated_total_def js_or_def to_double_def tx_def
      resolve_user_def getUserByEmail_def createUser_def upsertAllocation_def Let_def
      seeded_db_eq decimal_builtins_def decimal_100)

text \<open>The total is a sum of doubles. The values \<open>2^53 - 1\<close>, 2 and \<open>- (2^53 - 100)\<close> sum
  to 101, yet the first sum is rounded to \<open>2^53\<close> and the total of the code is 100: the
  total check passes. (The negative value then fails the CHECK of the column, and the
  transaction is rolled back with the answer 500.)\<close>

lemma allocate_total_is_rounded:
  "counted_sum decimal_builtins
     [\<lparr>player_id = JNum 1, points_allocated = JNum 9007199254740991\<rparr>,
      \<lparr>player_id = JNum 2, points_allocated = JNum 2\<rparr>,
      \<lparr>player_id = JNum 3, points_allocated = JNum (- 9007199254740892)\<rparr>] = 101
   \<and> double_total decimal_builtins
     [\<lparr>player_id = JNum 1, points_allocated = JNum 9007199254740991\<rparr>,
      \<lparr>player_id = JNum 2, points_allocated = JNum 2\<rparr>,
      \<lparr>player_id = JNum 3, points_allocated = JNum (- 9007199254740892)\<rparr>] = Fin 100
   \<and> allocate decimal_builtins seeded_db
        \<lparr>ab_name = Some ''Ana'', ab_email = Some ''ana@example.com'',
         ab_allocations = Some
           [Some \<lparr>player_id = JNum 1, points_allocated = JNum 9007199254740991\<rparr>,
            Some \<lparr>player_id = JNum 2, points_allocated = JNum 2\<rparr>,
            Some \<lparr>player_id = JNum 3, points_allocated = JNum (- 9007199254740892)\<rparr>]\<rparr>
       = (seeded_db, ErrorResp 500 ''Allocation failed'')"
  by (simp add: counted_sum_def double_total_def allocate_def allocated_total_def js_or_def
      to_double_def round53_def tx_def
      resolve_user_def getUserByEmail_def createUser_def upsertAllocation_def Let_def
      seeded_db_eq)

subsection \<open>One vote for each match and email\<close>

text \<open>
  C3. Whatever requests are served, starting from a database whose vote rows have distinct
  (match, email) pairs (the start-up database is one), the vote rows keep distinct pairs.
  After an accepted vote there is exactly one row for the pair: it names the player voted
  for and carries the time of the vote; when the pair had a row already, the pairs and the
  number of rows are as before, so the row was overwritten and no second row made. As a
  consequence, when one email votes in a match for player A and then for player B, neither
  of whom had a vote in that match, the results of the match show 1 vote for B and 0 for A.
\<close>

theorem one_vote_per_match_and_email:
  "(distinct (vote_keys d) \<longrightarrow> distinct (vote_keys (serve B d reqs)))
   \<and> distinct (vote_keys (serve B (startup today empty_db) reqs))
   \<and> (\<forall>d'. vote B now d (Fin m) \<lparr>vb_name = Some n, vb_email = Some e, vb_player_id = JNum p\<rparr>
               = (d', OkOnly) \<longrightarrow>
         ((m, e) \<in> set (vote_keys d) \<longrightarrow>
            vote_keys d' = vote_keys d \<and> length (potm_votes d') = length (potm_votes d))
         \<and> (distinct (vote_keys d) \<longrightarrow>
              filter (\<lambda>r. v_match_id r = m \<and> v_user_email r = e) (potm_votes d')
                = [\<lparr>v_match_id = m, v_player_id = p, v_user_email = e, v_created_at = now\<rparr>]))
   \<and> (n \<noteq> [] \<and> e \<noteq> [] \<and> pa \<noteq> 0 \<and> pb \<noteq> 0 \<and> pa \<noteq> pb
        \<and> getMatch d (Fin m) \<noteq> None
        \<and> pa \<in> set (map p_id (players d)) \<and> pb \<in> set (map p_id (players d))
        \<and> count_votes d (Fin m) pa = 0 \<and> count_votes d (Fin m) pb = 0 \<longrightarrow>
       (\<forall>r \<in> set (results
            (fst (vote B t2
               (fst (vote B t1 d (Fin m)
                  \<lparr>vb_name = Some n, vb_email = Some e, vb_player_id = JNum pa\<rparr>))
               (Fin m) \<lparr>vb_name = Some n, vb_email = Some e, vb_player_id = JNum pb\<rparr>))
            (Fin m)).
          (r_player_id r = pb \<longrightarrow> votes r = 1) \<and> (r_player_id r = pa \<longrightarrow> votes r = 0))
       \<and> {pa, pb} \<subseteq> r_player_id ` set (results
            (fst (vote B t2
               (fst (vote B t1 d (Fin m)
                  \<lparr>vb_name = Some n, vb_email = Some e, vb_player_id = JNum pa\<rparr>))
               (Fin m) \<lparr>vb_name = Some n, vb_email = Some e, vb_player_id = JNum pb\<rparr>))
            (Fin m)))"
proof -
  have inv: "distinct (vote_keys d) \<longrightarrow> distinct (vote_keys (serve B d reqs))"
    by (simp add: serve_distinct_vote_keys)
  have "distinct (vote_keys (startup today empty_db))"
    by (simp add: vote_keys_def startup_votes)
  then have start: "distinct (vote_keys (serve B (startup today empty_db) reqs))"
    by (rule serve_distinct_vote_keys)
  have upd: "((m, e) \<in> set (vote_keys d) \<longrightarrow>
            vote_keys d' = vote_keys d \<and> length (potm_votes d') = length (potm_votes d))
         \<and> (distinct (vote_keys d) \<longrightarrow>
              filter (\<lambda>r. v_match_id r = m \<and> v_user_email r = e) (potm_votes d')
                = [\<lparr>v_match_id = m, v_player_id = p, v_user_email = e, v_created_at = now\<rparr>])"
    if "vote B now d (Fin m) \<lparr>vb_name = Some n, vb_email = Some e, vb_player_id = JNum p\<rparr>
               = (d', OkOnly)" for d'
  proof -
    from vote_accepted [OF that]
    have v: "potm_votes d' = upsert_vote_row now m p e (potm_votes d)" .
    have k: "vote_keys d' = vote_keys d" if "(m, e) \<in> set (vote_keys d)"
      using that unfolding vote_keys_def v by (simp add: keys_upsert_vote_row)
    have l: "length (potm_votes d') = length (potm_votes d)"
      if "vote_keys d' = vote_keys d"
      using arg_cong [OF that, of length] by (simp add: vote_keys_def)
    have f: "filter (\<lambda>r. v_match_id r = m \<and> v_user_email r = e) (potm_votes d')
                = [\<lparr>v_match_id = m, v_player_id = p, v_user_email = e, v_created_at = now\<rparr>]"
      if "distinct (vote_keys d)"
      using that unfolding v vote_keys_def by (rule filter_key_upsert_vote_row)
    from k l f show ?thesis by blast
  qed
  have scen: "(\<forall>r \<in> set (results
            (fst (vote B t2
               (fst (vote B t1 d (Fin m)
                  \<lparr>vb_name = Some n, vb_email = Some e, vb_player_id = JNum pa\<rparr>))
               (Fin m) \<lparr>vb_name = Some n, vb_email = Some e, vb_player_id = JNum pb\<rparr>))
            (Fin m)).
          (r_player_id r = pb \<longrightarrow> votes r = 1) \<and> (r_player_id r = pa \<longrightarrow> votes r = 0))
       \<and> {pa, pb} \<subseteq> r_player_id ` set (results
            (fst (vote B t2
               (fst (vote B t1 d (Fin m)
                  \<lparr>vb_name = Some n, vb_email = Some e, vb_player_id = JNum pa\<rparr>))
               (Fin m) \<lparr>vb_name = Some n, vb_email = Some e, vb_player_id = JNum pb\<rparr>))
            (Fin m))"
    if h: "n \<noteq> []" "e \<noteq> []" "pa \<noteq> 0" "pb \<noteq> 0" "pa \<noteq> pb" "getMatch d (Fin m) \<noteq> None"
      "pa \<in> set (map p_id (players d))" "pb \<in> set (map p_id (players d))"
      "count_votes d (Fin m) pa = 0" "count_votes d (Fin m) pb = 0"
  proof -
    let ?d1 = "fst (vote B t1 d (Fin m)
                  \<lparr>vb_name = Some n, vb_email = Some e, vb_player_id = JNum pa\<rparr>)"
    let ?d2 = "fst (vote B t2 ?d1 (Fin m)
                  \<lparr>vb_name = Some n, vb_email = Some e, vb_player_id = JNum pb\<rparr>)"
    from vote_accepts [OF h(1,2,3,6,7), of B t1]
    have d1: "potm_votes ?d1 = upsert_vote_row t1 m pa e (potm_votes d)"
      "players ?d1 = players d" "matches ?d1 = matches d"
      by simp_all
    from h(6) d1(3) have m1: "getMatch ?d1 (Fin m) \<noteq> None"
      by (simp add: getMatch_def)
    from h(8) d1(2) have p1: "pb \<in> set (map p_id (players ?d1))" by simp
    from vote_accepts [OF h(1,2,4) m1 p1, of B t2] d1
    have d2: "potm_votes ?d2
        = upsert_vote_row t2 m pb e (upsert_vote_row t1 m pa e (potm_votes d))"
      "players ?d2 = players d"
      by simp_all
    from revote_counts [OF h(5), of m "potm_votes d" t2 e t1] h(9,10)
    have c: "count_votes ?d2 (Fin m) pb = 1" "count_votes ?d2 (Fin m) pa = 0"
      unfolding count_votes_eq d2(1) by simp_all
    have rows: "(r_player_id r = pb \<longrightarrow> votes r = 1) \<and> (r_player_id r = pa \<longrightarrow> votes r = 0)"
      if "r \<in> set (results ?d2 (Fin m))" for r
      using results_votes [OF that] c by auto
    from h(7,8) d2(2) have "{pa, pb} \<subseteq> r_player_id ` set (results ?d2 (Fin m))"
      unfolding results_ids by auto
    with rows show ?thesis by blast
  qed
  from inv start upd scen show ?thesis by blast
qed

text \<open>Ana votes for player 1, then for player 2, in match 1 of the seeded database.\<close>

theorem one_vote_per_match_and_email_witness:
  "distinct (vote_keys seeded_db)
   \<and> getMatch seeded_db (Fin 1) \<noteq> None
   \<and> count_votes seeded_db (Fin 1) 1 = 0 \<and> count_votes seeded_db (Fin 1) 2 = 0
   \<and> potm_votes (fst (vote decimal_builtins ''2025-10-26 22:05:00''
        (fst (vote decimal_builtins ''2025-10-26 22:00:00'' seeded_db (Fin 1)
           \<lparr>vb_name = Some ''Ana'', vb_email = Some ''ana@example.com'', vb_player_id = JNum 1\<rparr>))
        (Fin 1)
        \<lparr>vb_name = Some ''Ana'', vb_email = Some ''ana@example.com'', vb_player_id = JNum 2\<rparr>))
     = [\<lparr>v_match_id = 1, v_player_id = 2, v_user_email = ''ana@example.com'',
         v_created_at = ''2025-10-26 22:05:00''\<rparr>]
   \<and> results (fst (vote decimal_builtins ''2025-10-26 22:05:00''
        (fst (vote decimal_builtins ''2025-10-26 22:00:00'' seeded_db (Fin 1)
           \<lparr>vb_name = Some ''Ana'', vb_email = Some ''ana@example.com'', vb_player_id = JNum 1\<rparr>))
        (Fin 1)
        \<lparr>vb_name = Some ''Ana'', vb_email = Some ''ana@example.com'', vb_player_id = JNum 2\<rparr>))
       (Fin 1)
     = [\<lparr>r_player_id = 2, r_player_name = ''Pedri'', votes = 1\<rparr>,
        \<lparr>r_player_id = 3, r_player_name = ''Gavi'', votes = 0\<rparr>,
        \<lparr>r_player_id = 1, r_player_name = ''Lamine Yamal'', votes = 0\<rparr>]
   \<and> {1, 2} \<subseteq> r_player_id ` set (results (fst (vote decimal_builtins ''2025-10-26 22:05:00''
        (fst (vote decimal_builtins ''2025-10-26 22:00:00'' seeded_db (Fin 1)
           \<lparr>vb_name = Some ''Ana'', vb_email = Some ''ana@example.com'', vb_player_id = JNum 1\<rparr>))
        (Fin 1)
        \<lparr>vb_name = Some ''Ana'', vb_email = Some ''ana@example.com'', vb_player_id = JNum 2\<rparr>))
       (Fin 1))"
proof -
  let ?v1 = "\<lparr>vb_name = Some ''Ana'', vb_email = Some ''ana@example.com'', vb_player_id = JNum 1\<rparr>"
  let ?v2 = "\<lparr>vb_name = Some ''Ana'', vb_email = Some ''ana@example.com'', vb_player_id = JNum 2\<rparr>"
  let ?d2 = "fst (vote decimal_builtins ''2025-10-26 22:05:00''
        (fst (vote decimal_builtins ''2025-10-26 22:00:00'' seeded_db (Fin 1) ?v1)) (Fin 1) ?v2)"
  have h: "distinct (vote_keys seeded_db)" "getMatch seeded_db (Fin 1) \<noteq> None"
    "count_votes seeded_db (Fin 1) 1 = 0" "count_votes seeded_db (Fin 1) 2 = 0"
    "(1::int) \<in> set (map p_id (players seeded_db))" "(2::int) \<in> set (map p_id (players seeded_db))"
    by (simp_all add: vote_keys_def getMatch_def count_votes_def seeded_db_eq)
  have v: "potm_votes ?d2
     = [\<lparr>v_match_id = 1, v_player_id = 2, v_user_email = ''ana@example.com'',
         v_created_at = ''2025-10-26 22:05:00''\<rparr>]"
    and p: "players ?d2 = players seeded_db"
    by (simp_all add: vote_def getMatch_def resolve_user_def getUserByEmail_def createUser_def
        upsertVote_def Let_def seeded_db_eq)
  have r: "results ?d2 (Fin 1)
     = [\<lparr>r_player_id = 2, r_player_name = ''Pedri'', votes = 1\<rparr>,
        \<lparr>r_player_id = 3, r_player_name = ''Gavi'', votes = 0\<rparr>,
        \<lparr>r_player_id = 1, r_player_name = ''Lamine Yamal'', votes = 0\<rparr>]"
    unfolding results_def result_group_def count_votes_def v p
    by (simp add: seeded_db_eq)
  from one_vote_per_match_and_email [where d = seeded_db and B = decimal_builtins
      and reqs = "[]" and today = "''2025-10-26''" and now = "''2025-10-26 22:00:00''"
      and m = 1 and n = "''Ana''" and e = "''ana@example.com''" and p = 1
      and pa = 1 and pb = 2 and ?t1.0 = "''2025-10-26 22:00:00''"
      and ?t2.0 = "''2025-10-26 22:05:00''"] h
  have "{1, 2} \<subseteq> r_player_id ` set (results ?d2 (Fin 1))"
    by simp
  with h v r show ?thesis by simp
qed

subsection \<open>Submissions with an entry without player\<close>




text \<open>Three more submissions with an entry without player: without a name; with an
  element that is null; and with the values \<open>2^53\<close>, 1 and \<open>- (2^53 - 99)\<close>, which sum to
  100 and whose total in double arithmetic is 99.\<close>

lemma allocate_without_player_other_answers:
  "allocate decimal_builtins seeded_db
     \<lparr>ab_name = None, ab_email = Some ''ana@example.com'',
      ab_allocations = Some [Some \<lparr>player_id = JUndefined, points_allocated = JNum 100\<rparr>]\<rparr>
    = (seeded_db, ErrorResp 400 ''name, email, allocations[] required'')"
  "allocate decimal_builtins seeded_db
     \<lparr>ab_name = Some ''Ana'', ab_email = Some ''ana@example.com'',
      ab_allocations = Some [Some \<lparr>player_id = JUndefined, points_allocated = JNum 100\<rparr>, None]\<rparr>
    = (seeded_db, Unhandled NullAccess)"
  "allocate decimal_builtins seeded_db
     \<lparr>ab_name = Some ''Ana'', ab_email = Some ''ana@example.com'',
      ab_allocations = Some
        [Some \<lparr>player_id = JUndefined, points_allocated = JNum 9007199254740992\<rparr>,
         Some \<lparr>player_id = JNum 1, points_allocated = JNum 1\<rparr>,
         Some \<lparr>player_id = JNum 1, points_allocated = JNum (- 9007199254740893)\<rparr>]\<rparr>
    = (seeded_db, ErrorResp 400 ''Total allocated points must equal 100'')"
  by (simp_all add: allocate_def allocated_total_def js_or_def to_double_def round53_def)

subsection \<open>One allocation row for each user and player\<close>

text \<open>
  C5. Whatever requests are served, starting from a database whose allocation rows have
  distinct (user, player) pairs (the start-up database is one), the allocation rows keep
  distinct (user, player) pairs. The statement that writes an allocation leaves a row for
  the pair with the points submitted; when a row for the pair is there already the pairs
  and the number of rows stay as they are (the row is updated in place), and otherwise one
  row is added.
\<close>

theorem allocation_rows_unique:
  "(distinct (allocation_keys d) \<longrightarrow> distinct (allocation_keys (serve B d reqs)))
   \<and> distinct (allocation_keys (serve B (startup today empty_db) reqs))
   \<and> (\<forall>d'. upsertAllocation B d uid (JNum pid) (JNum q) = Inr d' \<longrightarrow>
         find (\<lambda>r. a_user_id r = uid \<and> a_player_id r = pid) (allocations d')
           = Some \<lparr>a_user_id = uid, a_player_id = pid, a_points_allocated = CInt q\<rparr>
         \<and> ((uid, pid) \<in> set (allocation_keys d) \<longrightarrow>
              allocation_keys d' = allocation_keys d
              \<and> length (allocations d') = length (allocations d))
         \<and> ((uid, pid) \<notin> set (allocation_keys d) \<longrightarrow>
              allocation_keys d' = allocation_keys d @ [(uid, pid)]))"
proof -
  have "distinct (allocation_keys (startup today empty_db))"
    by (simp add: allocation_keys_def startup_allocations)
  then have s: "distinct (allocation_keys (serve B (startup today empty_db) reqs))"
    by (rule serve_distinct_allocation_keys)
  have u: "find (\<lambda>r. a_user_id r = uid \<and> a_player_id r = pid) (allocations d')
           = Some \<lparr>a_user_id = uid, a_player_id = pid, a_points_allocated = CInt q\<rparr>
         \<and> ((uid, pid) \<in> set (allocation_keys d) \<longrightarrow>
              allocation_keys d' = allocation_keys d
              \<and> length (allocations d') = length (allocations d))
         \<and> ((uid, pid) \<notin> set (allocation_keys d) \<longrightarrow>
              allocation_keys d' = allocation_keys d @ [(uid, pid)])"
    if "upsertAllocation B d uid (JNum pid) (JNum q) = Inr d'" for d'
  proof -
    from that have d': "d' = d\<lparr>allocations := upsert_alloc_row uid pid (CInt q) (allocations d)\<rparr>"
      by (auto simp: upsertAllocation_def Let_def split: if_splits)
    have k: "allocation_keys d' =
        (if (uid, pid) \<in> set (allocation_keys d) then allocation_keys d
         else allocation_keys d @ [(uid, pid)])"
      unfolding d' allocation_keys_def by (simp add: keys_upsert_alloc_row)
    have f: "find (\<lambda>r. a_user_id r = uid \<and> a_player_id r = pid) (allocations d')
           = Some \<lparr>a_user_id = uid, a_player_id = pid, a_points_allocated = CInt q\<rparr>"
      unfolding d' by (simp add: find_upsert_alloc_row)
    have l: "length (allocations d') = length (allocations d)"
      if "allocation_keys d' = allocation_keys d"
      using arg_cong [OF that, of length] by (simp add: allocation_keys_def)
    from k f l show ?thesis by simp
  qed
  have a: "distinct (allocation_keys d) \<longrightarrow> distinct (allocation_keys (serve B d reqs))"
    by (simp add: serve_distinct_allocation_keys)
  from a s u show ?thesis by blast
qed

text \<open>Two submissions by one user, the second naming player 1 again.\<close>

theorem allocation_rows_unique_witness:
  "distinct (allocation_keys seeded_db)
   \<and> allocations (serve decimal_builtins seeded_db
        [PostAllocate \<lparr>ab_name = Some ''Ana'', ab_email = Some ''ana@example.com'',
           ab_allocations = Some
             [Some \<lparr>player_id = JNum 1, points_allocated = JNum 60\<rparr>,
              Some \<lparr>player_id = JNum 2, points_allocated = JNum 40\<rparr>]\<rparr>,
         PostAllocate \<lparr>ab_name = Some ''Ana'', ab_email = Some ''ana@example.com'',
           ab_allocations = Some
             [Some \<lparr>player_id = JNum 1, points_allocated = JNum 50\<rparr>,
              Some \<lparr>player_id = JNum 3, points_allocated = JNum 50\<rparr>]\<rparr>])
      = [\<lparr>a_user_id = 1, a_player_id = 1, a_points_allocated = CInt 50\<rparr>,
         \<lparr>a_user_id = 1, a_player_id = 2, a_points_allocated = CInt 40\<rparr>,
         \<lparr>a_user_id = 1, a_player_id = 3, a_points_allocated = CInt 50\<rparr>]
   \<and> distinct (allocation_keys (serve decimal_builtins seeded_db
        [PostAllocate \<lparr>ab_name = Some ''Ana'', ab_email = Some ''ana@example.com'',
           ab_allocations = Some
             [Some \<lparr>player_id = JNum 1, points_allocated = JNum 60\<rparr>,
              Some \<lparr>player_id = JNum 2, points_allocated = JNum 40\<rparr>]\<rparr>,
         PostAllocate \<lparr>ab_name = Some ''Ana'', ab_email = Some ''ana@example.com'',
           ab_allocations = Some
             [Some \<lparr>player_id = JNum 1, points_allocated = JNum 50\<rparr>,
              Some \<lparr>player_id = JNum 3, points_allocated = JNum 50\<rparr>]\<rparr>]))
   \<and> (1, 1) \<in> set (allocation_keys ana_db)
   \<and> upsertAllocation decimal_builtins ana_db 1 (JNum 1) (JNum 50)
      = Inr (ana_db\<lparr>allocations :=
          [\<lparr>a_user_id = 1, a_player_id = 1, a_points_allocated = CInt 50\<rparr>,
           \<lparr>a_user_id = 1, a_player_id = 2, a_points_allocated = CInt 40\<rparr>]\<rparr>)
   \<and> allocation_keys (ana_db\<lparr>allocations :=
          [\<lparr>a_user_id = 1, a_player_id = 1, a_points_allocated = CInt 50\<rparr>,
           \<lparr>a_user_id = 1, a_player_id = 2, a_points_allocated = CInt 40\<rparr>]\<rparr>)
      = allocation_keys ana_db"
proof -
  let ?b1 = "\<lparr>ab_name = Some ''Ana'', ab_email = Some ''ana@example.com'',
           ab_allocations = Some
             [Some \<lparr>player_id = JNum 1, points_allocated = JNum 60\<rparr>,
              Some \<lparr>player_id = JNum 2, points_allocated = JNum 40\<rparr>]\<rparr>"
  let ?b2 = "\<lparr>ab_name = Some ''Ana'', ab_email = Some ''ana@example.com'',
           ab_allocations = Some
             [Some \<lparr>player_id = JNum 1, points_allocated = JNum 50\<rparr>,
              Some \<lparr>player_id = JNum 3, points_allocated = JNum 50\<rparr>]\<rparr>"
  let ?d' = "ana_db\<lparr>allocations :=
          [\<lparr>a_user_id = 1, a_player_id = 1, a_points_allocated = CInt 50\<rparr>,
           \<lparr>a_user_id = 1, a_player_id = 2, a_points_allocated = CInt 40\<rparr>]\<rparr>"
  have s0: "distinct (allocation_keys seeded_db)"
    by (simp add: allocation_keys_def seeded_db_eq)
  have k: "(1, 1) \<in> set (allocation_keys ana_db)"
    by (simp add: allocation_keys_def ana_db_eq)
  have u: "upsertAllocation decimal_builtins ana_db 1 (JNum 1) (JNum 50) = Inr ?d'"
    by (simp add: upsertAllocation_def Let_def ana_db_eq)
  have a1: "fst (allocate decimal_builtins seeded_db ?b1) = ana_db"
    by (simp add: ana_db_def)
  have a2: "allocations (fst (allocate decimal_builtins ana_db ?b2))
      = [\<lparr>a_user_id = 1, a_player_id = 1, a_points_allocated = CInt 50\<rparr>,
         \<lparr>a_user_id = 1, a_player_id = 2, a_points_allocated = CInt 40\<rparr>,
         \<lparr>a_user_id = 1, a_player_id = 3, a_points_allocated = CInt 50\<rparr>]"
    by (simp add: allocate_def allocated_total_def js_or_def to_double_def tx_def
      resolve_user_def getUserByEmail_def createUser_def upsertAllocation_def Let_def
      ana_db_eq)
  have s: "allocations (serve decimal_builtins seeded_db [PostAllocate ?b1, PostAllocate ?b2])
      = [\<lparr>a_user_id = 1, a_player_id = 1, a_points_allocated = CInt 50\<rparr>,
         \<lparr>a_user_id = 1, a_player_id = 2, a_points_allocated = CInt 40\<rparr>,
         \<lparr>a_user_id = 1, a_player_id = 3, a_points_allocated = CInt 50\<rparr>]"
    by (simp add: a1 a2)
  from allocation_rows_unique [where d = seeded_db and B = decimal_builtins
      and reqs = "[PostAllocate ?b1, PostAllocate ?b2]" and today = "''2025-10-26''"
      and uid = 1 and pid = 1 and q = 50] s0
  have "distinct (allocation_keys (serve decimal_builtins seeded_db
      [PostAllocate ?b1, PostAllocate ?b2]))"
    by blast
  moreover
  from allocation_rows_unique [where d = ana_db and B = decimal_builtins
      and reqs = "[]" and today = "''2025-10-26''" and uid = 1 and pid = 1 and q = 50] u k
  have "allocation_keys ?d' = allocation_keys ana_db"
    by blast
  ultimately show ?thesis using s0 k u s by simp
qed

subsection \<open>The results of a match\<close>

text \<open>
  C6. For every match id the results hold one row for each registered player: the ids of
  the rows are the ids of the players, each as often as it is registered, which is once
  under the primary key, and so after any sequence of requests from start-up. The row of a player carries its name and the number of vote rows
  of that match that name the player, 0 for a player without votes. The rows are in
  descending order of votes, and rows of equal votes in ascending order of the name.
\<close>

theorem results_every_player_sorted:
  "mset (map r_player_id (results d mid)) = mset (map p_id (players d))
   \<and> length (results d mid) = length (players d)
   \<and> (distinct (map p_id (players d)) \<longrightarrow> distinct (map r_player_id (results d mid)))
   \<and> (\<forall>p \<in> set (players d).
         \<lparr>r_player_id = p_id p, r_player_name = p_name p, votes = count_votes d mid (p_id p)\<rparr>
           \<in> set (results d mid))
   \<and> (\<forall>r \<in> set (results d mid).
         votes r = length (filter (\<lambda>v. v_player_id v = r_player_id r \<and> Fin (v_match_id v) = mid)
                     (potm_votes d)))
   \<and> sorted_wrt (\<lambda>a b. votes a > votes b
                    \<or> (votes a = votes b \<and> r_player_name a \<le> r_player_name b))
        (results d mid)
   \<and> distinct (map r_player_id (results (serve B (startup today empty_db) reqs) mid))"
proof -
  have d: "distinct (map r_player_id (results d mid))" if "distinct (map p_id (players d))"
    using that mset_eq_imp_distinct_iff [OF results_player_ids [of d mid]] by simp
  have m: "\<lparr>r_player_id = p_id p, r_player_name = p_name p, votes = count_votes d mid (p_id p)\<rparr>
           \<in> set (results d mid)" if "p \<in> set (players d)" for p
    using that by (auto simp: results_def result_group_def image_iff)
  have v: "votes r = length (filter (\<lambda>v. v_player_id v = r_player_id r \<and> Fin (v_match_id v) = mid)
                     (potm_votes d))" if "r \<in> set (results d mid)" for r
    using results_votes [OF that] by (simp add: count_votes_def)
  have l: "length (results d mid) = length (players d)"
    by (simp add: results_def)
  have s: "distinct (map r_player_id (results (serve B (startup today empty_db) reqs) mid))"
    using mset_eq_imp_distinct_iff
      [OF results_player_ids [of "serve B (startup today empty_db) reqs" mid]]
      served_players_distinct [of B today reqs]
    by simp
  from results_player_ids [of d mid] l d m v results_sorted [of d mid] s show ?thesis
    by blast
qed


theorem results_every_player_sorted_witness:
  "distinct (map p_id (players league_db))
   \<and> results league_db (Fin 1)
     = [\<lparr>r_player_id = 2, r_player_name = ''Pedri'', votes = 1\<rparr>,
        \<lparr>r_player_id = 3, r_player_name = ''Gavi'', votes = 0\<rparr>,
        \<lparr>r_player_id = 1, r_player_name = ''Lamine Yamal'', votes = 0\<rparr>]
   \<and> distinct (map r_player_id (results league_db (Fin 1)))
   \<and> mset (map r_player_id (results league_db (Fin 1))) = mset (map p_id (players league_db))"
proof -
  have h: "distinct (map p_id (players league_db))"
    by (simp add: league_db_eq)
  from results_every_player_sorted [of league_db "Fin 1"] h
  have "distinct (map r_player_id (results league_db (Fin 1)))"
    and "mset (map r_player_id (results league_db (Fin 1))) = mset (map p_id (players league_db))"
    by blast+
  with h league_results show ?thesis by simp
qed


subsection \<open>The order and the size of the leaderboard\<close>

text \<open>
  C7. The leaderboard is in descending order of \<open>portfolio_points\<close>, rows of equal points
  in ascending order of the user id, and holds at most 100 rows: the rows of the first
  100 users in that order, or of all users when they are fewer.
\<close>

theorem leaderboard_sorted_at_most_100:
  "length (leaderboard B d) \<le> 100
   \<and> sorted_wrt (\<lambda>a b. portfolio_points a > portfolio_points b
         \<or> (portfolio_points a = portfolio_points b \<and> lb_id a \<le> lb_id b)) (leaderboard B d)
   \<and> set (leaderboard B d) \<subseteq> leaderboard_group B d ` set (users d)
   \<and> length (leaderboard B d) = min 100 (length (users d))"
proof -
  have "set (leaderboard B d) \<subseteq> leaderboard_group B d ` set (users d)"
    unfolding leaderboard_def using set_take_subset [of 100] by fastforce
  moreover have "length (leaderboard B d) = min 100 (length (users d))"
    by (simp add: leaderboard_def)
  ultimately show ?thesis using leaderboard_sorted [of B d] by simp
qed

text \<open>Ana and Eve tie at 56 points and come in the order of their ids.\<close>

theorem leaderboard_sorted_at_most_100_witness:
  "leaderboard decimal_builtins league_db =
     [\<lparr>lb_id = 1, lb_name = ''Ana'', lb_email = ''ana@example.com'', portfolio_points = 56\<rparr>,
      \<lparr>lb_id = 5, lb_name = ''Eve'', lb_email = ''eve@example.com'', portfolio_points = 56\<rparr>,
      \<lparr>lb_id = 3, lb_name = ''Cai'', lb_email = ''cai@example.com'', portfolio_points = 55 / 2\<rparr>,
      \<lparr>lb_id = 2, lb_name = ''Bea'', lb_email = ''bea@example.com'', portfolio_points = 5\<rparr>,
      \<lparr>lb_id = 4, lb_name = ''Dan'', lb_email = ''dan@example.com'', portfolio_points = 0\<rparr>]
   \<and> length (leaderboard decimal_builtins league_db) \<le> 100
   \<and> length (leaderboard decimal_builtins league_db) = min 100 (length (users league_db))"
  using leaderboard_sorted_at_most_100 [of decimal_builtins league_db]
  by (simp add: league_leaderboard)

subsection \<open>Adjusting the points of a player\<close>

text \<open>
  C8. A point adjustment for an id that no player has is answered with 404 ``Player not
  found'' and changes nothing. For an existing player the new total is the number given
  as \<open>set\<close> (the stored total when no number is given), plus the number given as \<open>delta\<close>
  when one is given: \<open>set\<close> is applied first and both may apply in one call. The new
  total is answered and stored. The sum is the sum of doubles (a stored NULL adds as 0):
  it is the exact sum whenever that is a double, as every integer up to \<open>2^53\<close> in size
  is. In particular \<open>{set: 50}\<close> followed by \<open>{delta: 10}\<close> leaves the player with 60
  points.
\<close>

theorem adjustPoints_set_then_delta:
  "(getPlayer d ident = None \<longrightarrow>
      adjustPoints d ident body = (d, ErrorResp 404 ''Player not found''))
   \<and> (\<forall>row. getPlayer d ident = Some row
          \<and> json_number (set_to body) \<and> json_number (delta body)
          \<and> double_number (total_number (read_total (p_total_points row))) \<longrightarrow>
        (\<exists>base result.
            base = (if typeof_number (set_to body) then Some (Fin (number_value (set_to body)))
                    else read_total (p_total_points row))
          \<and> result = (if typeof_number (delta body)
                      then Some (js_add (total_number base) (Fin (number_value (delta body))))
                      else base)
          \<and> adjusts_to d ident body row (bind_total result))
        \<and> (\<forall>s. set_to body = JNum s \<and> \<not> typeof_number (delta body)
              \<longrightarrow> adjusts_to d ident body row (SqlInt s))
        \<and> (\<forall>s k. set_to body = JNum s \<and> delta body = JNum k \<and> is_double (s + k)
              \<longrightarrow> adjusts_to d ident body row (SqlInt (s + k)))
        \<and> (\<forall>t k. \<not> typeof_number (set_to body) \<and> p_total_points row = SqlInt t
                \<and> delta body = JNum k \<and> is_double (t + k)
              \<longrightarrow> adjusts_to d ident body row (SqlInt (t + k)))
        \<and> (\<forall>k. \<not> typeof_number (set_to body) \<and> p_total_points row = SqlNull
                \<and> delta body = JNum k
              \<longrightarrow> adjusts_to d ident body row (SqlInt k)))
   \<and> (\<forall>row. getPlayer d ident = Some row \<longrightarrow>
        getPlayer
          (fst (adjustPoints
             (fst (adjustPoints d ident \<lparr>delta = JUndefined, set_to = JNum 50\<rparr>))
             ident \<lparr>delta = JNum 10, set_to = JUndefined\<rparr>)) ident
         = Some (row\<lparr>p_total_points := SqlInt 60\<rparr>))"
  by (auto simp: adjustPoints_def adjusts_to_def Let_def getPlayer_updatePoints is_double_def
      to_double_def)

text \<open>On the seeded database: an id that no player has; \<open>set\<close> and \<open>delta\<close> in one call;
  \<open>set\<close>, then \<open>delta\<close>; and the sum of \<open>2^53\<close> and 1, which is not a double and is rounded
  to \<open>2^53\<close>.\<close>

theorem adjustPoints_set_then_delta_witness:
  "getPlayer seeded_db (Fin 7) = None
   \<and> adjustPoints seeded_db (Fin 7) \<lparr>delta = JNum 10, set_to = JNum 50\<rparr>
       = (seeded_db, ErrorResp 404 ''Player not found'')
   \<and> getPlayer seeded_db (Fin 2)
       = Some \<lparr>p_id = 2, p_name = ''Pedri'', p_club = ''FC Barcelona'', p_photo_url = [],
               p_total_points = SqlInt 0\<rparr>
   \<and> json_number (JNum 50) \<and> json_number (JNum 10) \<and> double_number (Fin 0)
   \<and> is_double (50 + 10)
   \<and> snd (adjustPoints seeded_db (Fin 2) \<lparr>delta = JNum 10, set_to = JNum 50\<rparr>)
       = OkPoints 2 (SqlInt 60)
   \<and> getPlayer
        (fst (adjustPoints
           (fst (adjustPoints seeded_db (Fin 2) \<lparr>delta = JUndefined, set_to = JNum 50\<rparr>))
           (Fin 2) \<lparr>delta = JNum 10, set_to = JUndefined\<rparr>)) (Fin 2)
       = Some \<lparr>p_id = 2, p_name = ''Pedri'', p_club = ''FC Barcelona'', p_photo_url = [],
               p_total_points = SqlInt 60\<rparr>
   \<and> json_number (JNum 9007199254740992) \<and> json_number (JNum 1)
   \<and> snd (adjustPoints seeded_db (Fin 2) \<lparr>delta = JNum 1, set_to = JNum 9007199254740992\<rparr>)
       = OkPoints 2 (SqlInt 9007199254740992)"
proof -
  let ?row = "\<lparr>p_id = 2, p_name = ''Pedri'', p_club = ''FC Barcelona'', p_photo_url = [],
               p_total_points = SqlInt 0\<rparr>"
  let ?both = "\<lparr>delta = JNum 10, set_to = JNum 50\<rparr>"
  let ?big = "\<lparr>delta = JNum 1, set_to = JNum 9007199254740992\<rparr>"
  have none: "getPlayer seeded_db (Fin 7) = None"
    and row: "getPlayer seeded_db (Fin 2) = Some ?row"
    by (simp_all add: seeded_db_eq getPlayer_def)
  have dbl: "json_number (JNum 50)" "json_number (JNum 10)" "double_number (Fin 0)"
    "is_double (50 + 10)" "json_number (JNum 9007199254740992)" "json_number (JNum 1)"
    by (simp_all add: is_double_def to_double_def)
  from adjustPoints_set_then_delta [where d = seeded_db and ident = "Fin 7" and body = ?both] none
  have a: "adjustPoints seeded_db (Fin 7) ?both = (seeded_db, ErrorResp 404 ''Player not found'')"
    by simp
  have pb: "getPlayer seeded_db (Fin 2) = Some ?row
      \<and> json_number (set_to ?both) \<and> json_number (delta ?both)
      \<and> double_number (total_number (read_total (p_total_points ?row)))"
    using row dbl by simp
  from adjustPoints_set_then_delta [where d = seeded_db and ident = "Fin 2" and body = ?both,
      THEN conjunct2, THEN conjunct1, rule_format, OF pb,
      THEN conjunct2, THEN conjunct2, THEN conjunct1, rule_format, of 50 10] dbl
  have b: "snd (adjustPoints seeded_db (Fin 2) ?both) = OkPoints 2 (SqlInt 60)"
    by (simp add: adjusts_to_def)
  from adjustPoints_set_then_delta [where d = seeded_db and ident = "Fin 2" and body = ?both,
      THEN conjunct2, THEN conjunct2, rule_format, OF row]
  have c: "getPlayer
        (fst (adjustPoints
           (fst (adjustPoints seeded_db (Fin 2) \<lparr>delta = JUndefined, set_to = JNum 50\<rparr>))
           (Fin 2) \<lparr>delta = JNum 10, set_to = JUndefined\<rparr>)) (Fin 2)
       = Some (?row\<lparr>p_total_points := SqlInt 60\<rparr>)" .
  have pg: "getPlayer seeded_db (Fin 2) = Some ?row
      \<and> json_number (set_to ?big) \<and> json_number (delta ?big)
      \<and> double_number (total_number (read_total (p_total_points ?row)))"
    using row dbl by simp
  from adjustPoints_set_then_delta [where d = seeded_db and ident = "Fin 2" and body = ?big,
      THEN conjunct2, THEN conjunct1, rule_format, OF pg, THEN conjunct1]
  have e: "snd (adjustPoints seeded_db (Fin 2) ?big) = OkPoints 2 (SqlInt 9007199254740992)"
    by (simp add: adjusts_to_def to_double_def round53_def)
  from none a row dbl b c e show ?thesis by simp
qed

subsection \<open>Resolving the identity of a known email\<close>

text \<open>
  C9. When a user row with the email exists, resolving the identity returns that row and
  changes nothing, whatever name comes with the request: an allocation submission and a
  vote with this email leave the table of users as it was, so the stored name stays, and
  the user that a successful submission answers is the stored row.
\<close>

theorem existing_user_unchanged:
  assumes "getUserByEmail d e = Some u"
  shows "resolve_user d n e = (d, u)
    \<and> (ab_email body = Some e \<longrightarrow>
         users (fst (allocate B d body)) = users d
         \<and> getUserByEmail (fst (allocate B d body)) e = Some u
         \<and> (\<forall>u'. snd (allocate B d body) = OkUser u' \<longrightarrow> u' = u))
    \<and> (vb_email vbody = Some e \<longrightarrow>
         users (fst (vote B now d mid vbody)) = users d
         \<and> getUserByEmail (fst (vote B now d mid vbody)) e = Some u)"
proof -
  have g: "getUserByEmail d' e = Some u" if "users d' = users d" for d'
    using that assms by (simp add: getUserByEmail_def)
  from allocate_existing_user [OF assms, of body B] vote_existing_user [OF assms, of vbody B now mid]
    resolve_user_existing [OF assms, of n] g
  show ?thesis by blast
qed

theorem existing_user_unchanged_witness:
  "getUserByEmail ana_db ''ana@example.com''
     = Some \<lparr>u_id = 1, u_name = ''Ana'', u_email = ''ana@example.com''\<rparr>
   \<and> resolve_user ana_db ''Anna Maria'' ''ana@example.com''
     = (ana_db, \<lparr>u_id = 1, u_name = ''Ana'', u_email = ''ana@example.com''\<rparr>)
   \<and> allocate decimal_builtins ana_db
        \<lparr>ab_name = Some ''Anna Maria'', ab_email = Some ''ana@example.com'',
         ab_allocations = Some
           [Some \<lparr>player_id = JNum 1, points_allocated = JNum 50\<rparr>,
            Some \<lparr>player_id = JNum 3, points_allocated = JNum 50\<rparr>]\<rparr>
     = (ana_db\<lparr>allocations :=
          [\<lparr>a_user_id = 1, a_player_id = 1, a_points_allocated = CInt 50\<rparr>,
           \<lparr>a_user_id = 1, a_player_id = 2, a_points_allocated = CInt 40\<rparr>,
           \<lparr>a_user_id = 1, a_player_id = 3, a_points_allocated = CInt 50\<rparr>]\<rparr>,
        OkUser \<lparr>u_id = 1, u_name = ''Ana'', u_email = ''ana@example.com''\<rparr>)
   \<and> users (fst (vote decimal_builtins ''2025-10-26 21:00:00'' ana_db (Fin 1)
        \<lparr>vb_name = Some ''Anna Maria'', vb_email = Some ''ana@example.com'',
         vb_player_id = JNum 2\<rparr>))
     = [\<lparr>u_id = 1, u_name = ''Ana'', u_email = ''ana@example.com''\<rparr>]"
proof -
  let ?u = "\<lparr>u_id = 1, u_name = ''Ana'', u_email = ''ana@example.com''\<rparr>"
  let ?body = "\<lparr>ab_name = Some ''Anna Maria'', ab_email = Some ''ana@example.com'',
         ab_allocations = Some
           [Some \<lparr>player_id = JNum 1, points_allocated = JNum 50\<rparr>,
            Some \<lparr>player_id = JNum 3, points_allocated = JNum 50\<rparr>]\<rparr>"
  let ?vbody = "\<lparr>vb_name = Some ''Anna Maria'', vb_email = Some ''ana@example.com'',
         vb_player_id = JNum 2\<rparr>"
  have g: "getUserByEmail ana_db ''ana@example.com'' = Some ?u"
    by (simp add: ana_db_eq getUserByEmail_def)
  have a: "allocate decimal_builtins ana_db ?body
     = (ana_db\<lparr>allocations :=
          [\<lparr>a_user_id = 1, a_player_id = 1, a_points_allocated = CInt 50\<rparr>,
           \<lparr>a_user_id = 1, a_player_id = 2, a_points_allocated = CInt 40\<rparr>,
           \<lparr>a_user_id = 1, a_player_id = 3, a_points_allocated = CInt 50\<rparr>]\<rparr>,
        OkUser ?u)"
    by (simp add: allocate_def allocated_total_def js_or_def to_double_def tx_def
      resolve_user_def getUserByEmail_def createUser_def upsertAllocation_def Let_def
      ana_db_eq)
  from existing_user_unchanged [OF g, where n = "''Anna Maria''" and body = ?body
      and vbody = ?vbody and B = decimal_builtins and now = "''2025-10-26 21:00:00''"
      and mid = "Fin 1"]
  have "resolve_user ana_db ''Anna Maria'' ''ana@example.com'' = (ana_db, ?u)"
    and "users (fst (vote decimal_builtins ''2025-10-26 21:00:00'' ana_db (Fin 1) ?vbody))
      = users ana_db"
    by simp_all
  with g a show ?thesis by (simp add: ana_db_eq)
qed


subsection \<open>Point adjustments without a number\<close>

text \<open>
  C10. When neither \<open>set\<close> nor \<open>delta\<close> is a number (each is absent, or of another type,
  such as a string of digits), a point adjustment for an existing player succeeds, answers
  the stored total and leaves the total of the player as it was; with the ids of the
  players distinct, as the primary key has them and as they are after any sequence of
  requests from start-up, the database is not changed at all.
\<close>

theorem adjustPoints_without_numbers:
  assumes "getPlayer d ident = Some row"
    and "\<not> typeof_number (set_to body)" and "\<not> typeof_number (delta body)"
  shows "snd (adjustPoints d ident body) = OkPoints (p_id row) (p_total_points row)
    \<and> getPlayer (fst (adjustPoints d ident body)) ident = Some row
    \<and> (distinct (map p_id (players d)) \<longrightarrow> fst (adjustPoints d ident body) = d)
    \<and> (d = serve B (startup today empty_db) reqs \<longrightarrow> fst (adjustPoints d ident body) = d)"
  using assms updatePoints_same[of d ident row] served_players_distinct [of B today reqs]
  by (auto simp: adjustPoints_def Let_def getPlayer_updatePoints bind_read_total)

theorem adjustPoints_without_numbers_witness:
  "getPlayer seeded_db (Fin 2)
       = Some \<lparr>p_id = 2, p_name = ''Pedri'', p_club = ''FC Barcelona'', p_photo_url = [],
               p_total_points = SqlInt 0\<rparr>
   \<and> \<not> typeof_number (JStr ''50'') \<and> \<not> typeof_number JUndefined
   \<and> distinct (map p_id (players seeded_db))
   \<and> adjustPoints seeded_db (Fin 2) \<lparr>delta = JUndefined, set_to = JStr ''50''\<rparr>
       = (seeded_db, OkPoints 2 (SqlInt 0))"
proof -
  let ?body = "\<lparr>delta = JUndefined, set_to = JStr ''50''\<rparr>"
  let ?row = "\<lparr>p_id = 2, p_name = ''Pedri'', p_club = ''FC Barcelona'', p_photo_url = [],
               p_total_points = SqlInt 0\<rparr>"
  have g: "getPlayer seeded_db (Fin 2) = Some ?row"
    by (simp add: seeded_db_eq getPlayer_def)
  have s: "\<not> typeof_number (set_to ?body)" and k: "\<not> typeof_number (delta ?body)"
    by simp_all
  have dist: "distinct (map p_id (players seeded_db))"
    by (simp add: seeded_db_eq)
  from adjustPoints_without_numbers [OF g s k] dist
  have "snd (adjustPoints seeded_db (Fin 2) ?body) = OkPoints 2 (SqlInt 0)"
    and "fst (adjustPoints seeded_db (Fin 2) ?body) = seeded_db"
    by simp_all
  then have "adjustPoints seeded_db (Fin 2) ?body = (seeded_db, OkPoints 2 (SqlInt 0))"
    by (simp add: prod_eq_iff)
  with g dist show ?thesis by simp
qed


end
